theory Spec2Isabelle
  imports Complex_Main
begin

section \<open>Outcomes of a request\<close>

text \<open>
  Every handler of the backend answers either with a body or with one of three error
  statuses: 400 (the validation middleware reported errors), 404 (a record is missing or
  belongs to somebody else) and 500 (the \<^verbatim>\<open>catch\<close> branch, reached when a call of the
  data store throws). A handler of the model returns the outcome together with the
  table as it is left behind, also on the error paths: the writes of a handler are not
  wrapped in a transaction, so a write made before a later call throws stays.
\<close>

datatype error = BadRequest | NotFound | ServerError

section \<open>The data store\<close>

text \<open>
  A table is the list of its rows. The calls of the store's client that the handlers use
  are modelled on such a list, each with the key column as a parameter:
  \<^item> \<^verbatim>\<open>findUnique\<close> returns the row with the given key, or nothing;
  \<^item> \<^verbatim>\<open>updateMany\<close> rewrites every row that satisfies the filter;
  \<^item> \<^verbatim>\<open>update\<close> rewrites the row with the given key and throws when there is none;
  \<^item> \<^verbatim>\<open>create\<close> appends a row and throws when its key is taken;
  \<^item> \<^verbatim>\<open>delete\<close> removes the row with the given key and throws when there is none.
  A call that throws is the value \<open>None\<close>.
\<close>

definition findUnique :: "('r \<Rightarrow> string) \<Rightarrow> string \<Rightarrow> 'r list \<Rightarrow> 'r option" where
  "findUnique key i rows = find (\<lambda>r. key r = i) rows"

definition updateMany :: "('r \<Rightarrow> bool) \<Rightarrow> ('r \<Rightarrow> 'r) \<Rightarrow> 'r list \<Rightarrow> 'r list" where
  "updateMany P f rows = map (\<lambda>r. if P r then f r else r) rows"

definition update_row ::
  "('r \<Rightarrow> string) \<Rightarrow> string \<Rightarrow> ('r \<Rightarrow> 'r) \<Rightarrow> 'r list \<Rightarrow> ('r \<times> 'r list) option" where
  "update_row key i f rows =
     (case findUnique key i rows of
        None \<Rightarrow> None
      | Some r \<Rightarrow> Some (f r, updateMany (\<lambda>r. key r = i) f rows))"

definition create_row :: "('r \<Rightarrow> string) \<Rightarrow> 'r \<Rightarrow> 'r list \<Rightarrow> 'r list option" where
  "create_row key r rows =
     (case findUnique key (key r) rows of
        None \<Rightarrow> Some (rows @ [r])
      | Some _ \<Rightarrow> None)"

definition delete_row :: "('r \<Rightarrow> string) \<Rightarrow> string \<Rightarrow> 'r list \<Rightarrow> 'r list option" where
  "delete_row key i rows =
     (case findUnique key i rows of
        None \<Rightarrow> None
      | Some _ \<Rightarrow> Some (filter (\<lambda>r. key r \<noteq> i) rows))"

text \<open>The key column of a table is a primary key: no two rows share a key.\<close>

definition primary_key :: "('r \<Rightarrow> string) \<Rightarrow> 'r list \<Rightarrow> bool" where
  "primary_key key rows = distinct (map key rows)"

section \<open>Addresses\<close>

text \<open>
  An address row has the columns the handlers of the user routes write. The schema is not
  among the sources: the text columns hold what the handler passed, \<open>None\<close> when it
  passed nothing. A request body gives each field or leaves it out (\<open>None\<close>, the
  \<^verbatim>\<open>undefined\<close> of the source); the default flag of a body is a boolean when present.
\<close>

record address =
  addr_id :: string
  userId :: string
  addr_type :: "string option"
  addr_name :: "string option"
  street :: "string option"
  addr_unit :: "string option"
  building :: "string option"
  postalCode :: "string option"
  district :: "string option"
  isDefault :: bool
  deliveryNotes :: "string option"

record address_body =
  b_type :: "string option"
  b_name :: "string option"
  b_street :: "string option"
  b_unit :: "string option"
  b_building :: "string option"
  b_postalCode :: "string option"
  b_district :: "string option"
  b_isDefault :: "bool option"
  b_deliveryNotes :: "string option"

text \<open>\<^verbatim>\<open>if (isDefault)\<close>: the flag is present and true.\<close>

definition wants_default :: "address_body \<Rightarrow> bool" where
  "wants_default body = (b_isDefault body = Some True)"

definition unset_default :: "address \<Rightarrow> address" where
  "unset_default a = a\<lparr>isDefault := False\<rparr>"

text \<open>
  The row that \<^verbatim>\<open>POST /addresses\<close> creates: \<^verbatim>\<open>isDefault: isDefault || false\<close>. The key
  of the new row is generated by the store; it is the parameter \<open>newId\<close>.
\<close>

definition new_address :: "string \<Rightarrow> string \<Rightarrow> address_body \<Rightarrow> address" where
  "new_address uid newId body =
     \<lparr>addr_id = newId, userId = uid,
      addr_type = b_type body, addr_name = b_name body, street = b_street body,
      addr_unit = b_unit body, building = b_building body,
      postalCode = b_postalCode body, district = b_district body,
      isDefault = (case b_isDefault body of Some b \<Rightarrow> b | None \<Rightarrow> False),
      deliveryNotes = b_deliveryNotes body\<rparr>"

text \<open>
  The \<open>data\<close> of \<^verbatim>\<open>PUT /addresses/:id\<close>: a field the body leaves out is
  \<^verbatim>\<open>undefined\<close>, which the store's \<^verbatim>\<open>update\<close> leaves as it is.
\<close>

definition set_field :: "'a option \<Rightarrow> 'a option \<Rightarrow> 'a option" where
  "set_field new old = (case new of None \<Rightarrow> old | Some v \<Rightarrow> Some v)"

definition apply_body :: "address_body \<Rightarrow> address \<Rightarrow> address" where
  "apply_body body a =
     a\<lparr>addr_type := set_field (b_type body) (addr_type a),
       addr_name := set_field (b_name body) (addr_name a),
       street := set_field (b_street body) (street a),
       addr_unit := set_field (b_unit body) (addr_unit a),
       building := set_field (b_building body) (building a),
       postalCode := set_field (b_postalCode body) (postalCode a),
       district := set_field (b_district body) (district a),
       isDefault := (case b_isDefault body of None \<Rightarrow> isDefault a | Some b \<Rightarrow> b),
       deliveryNotes := set_field (b_deliveryNotes body) (deliveryNotes a)\<rparr>"

text \<open>
  \<^verbatim>\<open>POST /addresses\<close>. \<open>uid\<close> is the caller's id as the authentication middleware
  supplies it, \<open>errors\<close> the list of validation errors of the request.
\<close>

definition create_address ::
  "string \<Rightarrow> string list \<Rightarrow> string \<Rightarrow> address_body \<Rightarrow> address list
     \<Rightarrow> (error + address) \<times> address list" where
  "create_address uid errors newId body rows =
     (if errors \<noteq> [] then (Inl BadRequest, rows)
      else
        let rows1 =
              (if wants_default body
               then updateMany (\<lambda>a. userId a = uid \<and> isDefault a) unset_default rows
               else rows)
        in case create_row addr_id (new_address uid newId body) rows1 of
             None \<Rightarrow> (Inl ServerError, rows1)
           | Some rows2 \<Rightarrow> (Inr (new_address uid newId body), rows2))"

text \<open>\<^verbatim>\<open>PUT /addresses/:id\<close>.\<close>

definition update_address ::
  "string \<Rightarrow> string \<Rightarrow> address_body \<Rightarrow> address list \<Rightarrow> (error + address) \<times> address list" where
  "update_address uid i body rows =
     (case findUnique addr_id i rows of
        None \<Rightarrow> (Inl NotFound, rows)
      | Some existing \<Rightarrow>
          if userId existing \<noteq> uid then (Inl NotFound, rows)
          else
            let rows1 =
                  (if wants_default body
                   then updateMany (\<lambda>a. userId a = uid \<and> isDefault a \<and> addr_id a \<noteq> i)
                          unset_default rows
                   else rows)
            in (case update_row addr_id i (apply_body body) rows1 of
                  None \<Rightarrow> (Inl ServerError, rows1)
                | Some (a, rows2) \<Rightarrow> (Inr a, rows2)))"

text \<open>\<^verbatim>\<open>DELETE /addresses/:id\<close>; the answer of a success is a fixed message.\<close>

definition delete_address ::
  "string \<Rightarrow> string \<Rightarrow> address list \<Rightarrow> (error + unit) \<times> address list" where
  "delete_address uid i rows =
     (case findUnique addr_id i rows of
        None \<Rightarrow> (Inl NotFound, rows)
      | Some existing \<Rightarrow>
          if userId existing \<noteq> uid then (Inl NotFound, rows)
          else
            (case delete_row addr_id i rows of
               None \<Rightarrow> (Inl ServerError, rows)
             | Some rows1 \<Rightarrow> (Inr (), rows1)))"

text \<open>The addresses of a user that carry the default flag.\<close>

definition defaults_of :: "string \<Rightarrow> address list \<Rightarrow> address list" where
  "defaults_of uid rows = filter (\<lambda>a. userId a = uid \<and> isDefault a) rows"

text \<open>
  Sample data: two addresses of user \<open>u1\<close> that both carry the default flag (nothing in
  the store forbids it), one address of user \<open>u2\<close>, and two request bodies.
\<close>

definition sample_home :: address where
  "sample_home =
     \<lparr>addr_id = ''a1'', userId = ''u1'', addr_type = Some ''HOME'', addr_name = Some ''Home'',
      street = Some ''1 Orchard Road'', addr_unit = None, building = None,
      postalCode = Some ''238823'', district = None, isDefault = True,
      deliveryNotes = None\<rparr>"

definition sample_office :: address where
  "sample_office =
     \<lparr>addr_id = ''a2'', userId = ''u1'', addr_type = Some ''OFFICE'', addr_name = Some ''Work'',
      street = Some ''8 Marina View'', addr_unit = Some ''12-01'', building = None,
      postalCode = Some ''018960'', district = None, isDefault = True,
      deliveryNotes = None\<rparr>"

definition sample_foreign :: address where
  "sample_foreign =
     \<lparr>addr_id = ''a9'', userId = ''u2'', addr_type = Some ''HOME'', addr_name = None,
      street = Some ''5 Jurong East'', addr_unit = None, building = None,
      postalCode = Some ''609731'', district = None, isDefault = True,
      deliveryNotes = None\<rparr>"

definition sample_addresses :: "address list" where
  "sample_addresses = [sample_home, sample_office, sample_foreign]"

definition body_default :: address_body where
  "body_default =
     \<lparr>b_type = Some ''HOME'', b_name = Some ''New'', b_street = Some ''3 Bukit Timah'',
      b_unit = None, b_building = None, b_postalCode = Some ''259708'', b_district = None,
      b_isDefault = Some True, b_deliveryNotes = None\<rparr>"

definition body_plain :: address_body where
  "body_plain = body_default\<lparr>b_isDefault := None\<rparr>"

section \<open>Values of the runtime\<close>

subsection \<open>Strings\<close>

text \<open>
  A string of the model is a list of 8-bit characters, read as the code units
  U+0000 to U+00FF (Basic Latin and Latin-1). On this range the two string functions the
  handlers use are as follows, and both stay inside the range:
  \<^item> \<^verbatim>\<open>toLowerCase\<close> maps the capital letters A to Z, and the capital letters of
    Latin-1 (U+00C0 to U+00DE without the multiplication sign U+00D7), to the letter 32
    code units further on, and leaves every other code unit as it is;
  \<^item> the class \<^verbatim>\<open>\s\<close> of a regular expression holds tab, line feed, vertical tab,
    form feed, carriage return, space and the no-break space U+00A0.
\<close>

definition lower_char :: "char \<Rightarrow> char" where
  "lower_char c =
     (let n = (of_char c :: nat)
      in if (65 \<le> n \<and> n \<le> 90) \<or> (192 \<le> n \<and> n \<le> 214) \<or> (216 \<le> n \<and> n \<le> 222)
         then char_of (n + 32) else c)"

definition toLowerCase :: "string \<Rightarrow> string" where
  "toLowerCase s = map lower_char s"

definition is_space :: "char \<Rightarrow> bool" where
  "is_space c = ((of_char c :: nat) \<in> set [9, 10, 11, 12, 13, 32, 160])"

text \<open>
  \<^verbatim>\<open>s.replace(/\s+/g, '-')\<close>: the scan goes from left to right; where the greedy
  pattern matches, the whole match is replaced by one hyphen and the scan goes on behind
  it; a character at which the pattern does not match is copied.
\<close>

function replace_spaces :: "string \<Rightarrow> string" where
  "replace_spaces [] = []"
| "replace_spaces (c # cs) =
     (if is_space c then CHR ''-'' # replace_spaces (dropWhile is_space cs)
      else c # replace_spaces cs)"
  by pat_completeness auto
termination
  by (relation "measure length") (auto simp: less_Suc_eq_le length_dropWhile_le)

text \<open>
  The words of the specification, to compare with: the string is cut into its maximal
  runs of whitespace and of other characters (a run is never empty), and every run of
  whitespace becomes a single hyphen.
\<close>

function maximal_runs :: "('a \<Rightarrow> bool) \<Rightarrow> 'a list \<Rightarrow> 'a list list" where
  "maximal_runs P [] = []"
| "maximal_runs P (x # xs) =
     (x # takeWhile (\<lambda>y. P y = P x) xs) # maximal_runs P (dropWhile (\<lambda>y. P y = P x) xs)"
  by pat_completeness auto
termination
  by (relation "measure (\<lambda>(P, xs). length xs)") (auto simp: less_Suc_eq_le length_dropWhile_le)

definition hyphen_for_runs :: "string \<Rightarrow> string" where
  "hyphen_for_runs s =
     concat (map (\<lambda>r. if is_space (hd r) then ''-'' else r) (maximal_runs is_space s))"

text \<open>Truthiness of a query parameter: it is present and not the empty string.\<close>

definition truthy :: "string option \<Rightarrow> bool" where
  "truthy v = (case v of None \<Rightarrow> False | Some s \<Rightarrow> s \<noteq> [])"

text \<open>A destructuring default: it applies when the parameter is absent.\<close>

definition or_default :: "'a \<Rightarrow> 'a option \<Rightarrow> 'a" where
  "or_default d v = (case v of None \<Rightarrow> d | Some x \<Rightarrow> x)"

text \<open>
  Case-insensitive \<^verbatim>\<open>contains\<close> of the store: the needle occurs in the text as a
  contiguous part, both lowercased.
\<close>

fun starts_with :: "'a list \<Rightarrow> 'a list \<Rightarrow> bool" where
  "starts_with [] ys = True"
| "starts_with (x # xs) [] = False"
| "starts_with (x # xs) (y # ys) = (x = y \<and> starts_with xs ys)"

fun occurs_in :: "'a list \<Rightarrow> 'a list \<Rightarrow> bool" where
  "occurs_in xs [] = (xs = [])"
| "occurs_in xs (y # ys) = (starts_with xs (y # ys) \<or> occurs_in xs ys)"

definition contains_insensitive :: "string \<Rightarrow> string \<Rightarrow> bool" where
  "contains_insensitive needle text_col = occurs_in (toLowerCase needle) (toLowerCase text_col)"

subsection \<open>Numbers\<close>

text \<open>
  A number of the runtime is a finite double, an infinity, or NaN. A finite double is
  given by the real number it stands for; the sign of zero is not part of the model.
  The operations of this subsection are the ones of the page arithmetic, which works on
  whole numbers: there they are written without rounding, since the double arithmetic is
  exact on whole numbers below \<open>2 ^ 53\<close>, and the ceiling of the rounded quotient of
  two such numbers is the ceiling of the exact quotient. The sum and the quotient of the
  sales report work on arbitrary amounts and are rounded; they are defined with the
  report.
\<close>

datatype jsnum = Fin real | PosInf | NegInf | NaN

fun js_minus :: "jsnum \<Rightarrow> jsnum \<Rightarrow> jsnum" where
  "js_minus (Fin a) (Fin b) = Fin (a - b)"
| "js_minus NaN _ = NaN"
| "js_minus _ NaN = NaN"
| "js_minus PosInf PosInf = NaN"
| "js_minus NegInf NegInf = NaN"
| "js_minus PosInf _ = PosInf"
| "js_minus NegInf _ = NegInf"
| "js_minus (Fin a) PosInf = NegInf"
| "js_minus (Fin a) NegInf = PosInf"

definition js_negate :: "jsnum \<Rightarrow> jsnum" where
  "js_negate x = (case x of Fin a \<Rightarrow> Fin (- a) | PosInf \<Rightarrow> NegInf | NegInf \<Rightarrow> PosInf | NaN \<Rightarrow> NaN)"

definition inf_times :: "jsnum \<Rightarrow> real \<Rightarrow> jsnum" where
  "inf_times i a = (if a = 0 then NaN else if 0 < a then i else js_negate i)"

fun js_times :: "jsnum \<Rightarrow> jsnum \<Rightarrow> jsnum" where
  "js_times (Fin a) (Fin b) = Fin (a * b)"
| "js_times NaN _ = NaN"
| "js_times _ NaN = NaN"
| "js_times PosInf (Fin b) = inf_times PosInf b"
| "js_times NegInf (Fin b) = inf_times NegInf b"
| "js_times (Fin a) PosInf = inf_times PosInf a"
| "js_times (Fin a) NegInf = inf_times NegInf a"
| "js_times PosInf PosInf = PosInf"
| "js_times NegInf NegInf = PosInf"
| "js_times PosInf NegInf = NegInf"
| "js_times NegInf PosInf = NegInf"

text \<open>Division of two finite numbers: a zero divisor gives NaN or an infinity.\<close>

definition js_divide :: "real \<Rightarrow> real \<Rightarrow> jsnum" where
  "js_divide a b =
     (if b \<noteq> 0 then Fin (a / b)
      else if a = 0 then NaN else if 0 < a then PosInf else NegInf)"

definition js_ceil :: "jsnum \<Rightarrow> jsnum" where
  "js_ceil x = (case x of Fin a \<Rightarrow> Fin (of_int \<lceil>a\<rceil>) | _ \<Rightarrow> x)"

text \<open>\<^verbatim>\<open>x || 0\<close> on a number: zero and NaN are falsy.\<close>

definition or_zero :: "jsnum \<Rightarrow> jsnum" where
  "or_zero x = (case x of NaN \<Rightarrow> Fin 0 | Fin a \<Rightarrow> (if a = 0 then Fin 0 else Fin a) | _ \<Rightarrow> x)"

text \<open>
  \<^verbatim>\<open>Number(v)\<close> of a query parameter with a numeric destructuring default. The
  conversion of a string to a number is a function of the runtime; it is the parameter
  \<open>toNumber\<close> of every handler that converts.
\<close>

definition number_or :: "(string \<Rightarrow> jsnum) \<Rightarrow> real \<Rightarrow> string option \<Rightarrow> jsnum" where
  "number_or toNumber d v = (case v of None \<Rightarrow> Fin d | Some s \<Rightarrow> toNumber s)"

definition is_integer :: "real \<Rightarrow> bool" where
  "is_integer x = (of_int \<lfloor>x\<rfloor> = x)"

subsection \<open>Reading a page of rows\<close>

text \<open>
  \<^verbatim>\<open>findMany\<close> with \<open>skip\<close> and \<open>take\<close>, on the rows that match, in their order. The
  store accepts integers only and no negative \<open>skip\<close>, and throws otherwise (the value
  \<open>None\<close>). A negative \<open>take\<close> reads from the end of the list.
\<close>

definition page_window :: "jsnum \<Rightarrow> jsnum \<Rightarrow> 'r list \<Rightarrow> 'r list option" where
  "page_window skip_n take_n rows =
     (case (skip_n, take_n) of
        (Fin s, Fin t) \<Rightarrow>
          if is_integer s \<and> is_integer t \<and> 0 \<le> s
          then Some (if 0 \<le> t then take (nat \<lfloor>t\<rfloor>) (drop (nat \<lfloor>s\<rfloor>) rows)
                     else rev (take (nat \<lfloor>- t\<rfloor>) (drop (nat \<lfloor>s\<rfloor>) (rev rows))))
          else None
      | _ \<Rightarrow> None)"

text \<open>
  \<^verbatim>\<open>orderBy\<close>: the rows are put in order by insertion, with the comparison of the
  column and direction asked for. The result holds the same rows whatever the comparison.
\<close>

fun insert_by :: "('r \<Rightarrow> 'r \<Rightarrow> bool) \<Rightarrow> 'r \<Rightarrow> 'r list \<Rightarrow> 'r list" where
  "insert_by le x [] = [x]"
| "insert_by le x (y # ys) = (if le x y then x # y # ys else y # insert_by le x ys)"

definition order_by :: "('r \<Rightarrow> 'r \<Rightarrow> bool) \<Rightarrow> 'r list \<Rightarrow> 'r list" where
  "order_by le rows = foldr (insert_by le) rows []"

text \<open>The pagination block of a listing answer.\<close>

record pagination =
  pg_page :: jsnum
  pg_limit :: jsnum
  pg_total :: nat
  pg_pages :: jsnum

text \<open>\<^verbatim>\<open>Math.ceil(total / Number(limit))\<close>.\<close>

definition pages_of :: "nat \<Rightarrow> jsnum \<Rightarrow> jsnum" where
  "pages_of n l =
     (case l of Fin b \<Rightarrow> js_ceil (js_divide (real n) b) | NaN \<Rightarrow> NaN | _ \<Rightarrow> Fin 0)"

section \<open>Products\<close>

text \<open>
  A product row, with the columns the handlers and the data model name. The joined rows
  that an \<^verbatim>\<open>include\<close> clause attaches to an answer (the published reviews of a
  product, the items of an order) are read only and are left out of the model.
\<close>

record product =
  prod_id :: string
  prod_name :: string
  slug :: string
  description :: string
  price :: real
  stock :: int
  category :: string
  brand :: string
  isActive :: bool
  isFeatured :: bool
  viewCount :: int
  salesCount :: int
  lowStockAlert :: int
  prod_createdAt :: int

subsection \<open>Creating a product\<close>

text \<open>
  The body of \<^verbatim>\<open>POST /products\<close> is spread into the new row, and the slug computed
  from the name is written over whatever slug the body gave. A column the body leaves out
  takes the default of the schema; the schema is not among the sources, so the defaults
  are the row \<open>dflt\<close>, and the generated key is \<open>newId\<close>.
\<close>

record product_body =
  pb_id :: "string option"
  pb_name :: "string option"
  pb_description :: "string option"
  pb_price :: "real option"
  pb_stock :: "int option"
  pb_category :: "string option"
  pb_brand :: "string option"
  pb_isActive :: "bool option"
  pb_isFeatured :: "bool option"
  pb_viewCount :: "int option"
  pb_salesCount :: "int option"
  pb_lowStockAlert :: "int option"
  pb_createdAt :: "int option"

text \<open>\<^verbatim>\<open>name.toLowerCase().replace(/\s+/g, '-')\<close>.\<close>

definition slug_of :: "string \<Rightarrow> string" where
  "slug_of name_str = replace_spaces (toLowerCase name_str)"

definition new_product :: "string \<Rightarrow> product \<Rightarrow> product_body \<Rightarrow> string \<Rightarrow> product" where
  "new_product newId dflt body name_str =
     \<lparr>prod_id = or_default newId (pb_id body),
      prod_name = name_str,
      slug = slug_of name_str,
      description = or_default (description dflt) (pb_description body),
      price = or_default (price dflt) (pb_price body),
      stock = or_default (stock dflt) (pb_stock body),
      category = or_default (category dflt) (pb_category body),
      brand = or_default (brand dflt) (pb_brand body),
      isActive = or_default (isActive dflt) (pb_isActive body),
      isFeatured = or_default (isFeatured dflt) (pb_isFeatured body),
      viewCount = or_default (viewCount dflt) (pb_viewCount body),
      salesCount = or_default (salesCount dflt) (pb_salesCount body),
      lowStockAlert = or_default (lowStockAlert dflt) (pb_lowStockAlert body),
      prod_createdAt = or_default (prod_createdAt dflt) (pb_createdAt body)\<rparr>"

text \<open>
  \<^verbatim>\<open>POST /products\<close>. A body without a name makes \<^verbatim>\<open>req.body.name.toLowerCase()\<close>
  throw, which the handler answers with status 500.
\<close>

definition create_product ::
  "string list \<Rightarrow> string \<Rightarrow> product \<Rightarrow> product_body \<Rightarrow> product list
     \<Rightarrow> (error + product) \<times> product list" where
  "create_product errors newId dflt body rows =
     (if errors \<noteq> [] then (Inl BadRequest, rows)
      else
        (case pb_name body of
           None \<Rightarrow> (Inl ServerError, rows)
         | Some name_str \<Rightarrow>
             (case create_row prod_id (new_product newId dflt body name_str) rows of
                None \<Rightarrow> (Inl ServerError, rows)
              | Some rows1 \<Rightarrow> (Inr (new_product newId dflt body name_str), rows1))))"

subsection \<open>Listing products\<close>

record product_query =
  q_category :: "string option"
  q_brand :: "string option"
  q_minPrice :: "string option"
  q_maxPrice :: "string option"
  q_search :: "string option"
  q_page :: "string option"
  q_limit :: "string option"
  q_sortBy :: "string option"
  q_order :: "string option"

text \<open>The filter \<open>where\<close> that the handler builds from the query.\<close>

record product_where =
  w_isActive :: bool
  w_category :: "string option"
  w_brand :: "string option"
  w_price_gte :: "jsnum option"
  w_price_lte :: "jsnum option"
  w_search :: "string option"

definition product_where_of :: "(string \<Rightarrow> jsnum) \<Rightarrow> product_query \<Rightarrow> product_where" where
  "product_where_of toNumber q =
     \<lparr>w_isActive = True,
      w_category =
        (if truthy (q_category q) \<and> q_category q \<noteq> Some ''All'' then q_category q else None),
      w_brand = (if truthy (q_brand q) then q_brand q else None),
      w_price_gte =
        (if (truthy (q_minPrice q) \<or> truthy (q_maxPrice q)) \<and> truthy (q_minPrice q)
         then map_option toNumber (q_minPrice q) else None),
      w_price_lte =
        (if (truthy (q_minPrice q) \<or> truthy (q_maxPrice q)) \<and> truthy (q_maxPrice q)
         then map_option toNumber (q_maxPrice q) else None),
      w_search = (if truthy (q_search q) then q_search q else None)\<rparr>"

text \<open>
  The rows a filter selects. A bound of the price range that is not a finite number is
  rejected by the store: the call throws.
\<close>

definition bound_ok :: "jsnum option \<Rightarrow> bool" where
  "bound_ok b = (case b of None \<Rightarrow> True | Some (Fin _) \<Rightarrow> True | Some _ \<Rightarrow> False)"

definition where_ok :: "product_where \<Rightarrow> bool" where
  "where_ok w = (bound_ok (w_price_gte w) \<and> bound_ok (w_price_lte w))"

definition matches_where :: "product_where \<Rightarrow> product \<Rightarrow> bool" where
  "matches_where w p =
     (isActive p = w_isActive w
      \<and> (case w_category w of None \<Rightarrow> True | Some c \<Rightarrow> category p = c)
      \<and> (case w_brand w of None \<Rightarrow> True | Some b \<Rightarrow> brand p = b)
      \<and> (case w_price_gte w of Some (Fin lo) \<Rightarrow> lo \<le> price p | _ \<Rightarrow> True)
      \<and> (case w_price_lte w of Some (Fin hi) \<Rightarrow> price p \<le> hi | _ \<Rightarrow> True)
      \<and> (case w_search w of
           None \<Rightarrow> True
         | Some s \<Rightarrow> contains_insensitive s (prod_name p) \<or> contains_insensitive s (brand p)
                      \<or> contains_insensitive s (description p)))"

record product_listing =
  products :: "product list"
  pagination :: pagination

text \<open>
  \<^verbatim>\<open>GET /\<close> of the product routes. \<open>cmp_of\<close> gives the comparison of the store for a
  column name and a direction, and \<open>None\<close> where the store rejects them (the handler
  passes both on unchecked). The page and the count are read with the same filter; when
  either call throws, the answer is status 500. The validators of the route are run
  before the handler, which does not look at their result.
\<close>

definition list_products ::
  "(string \<Rightarrow> jsnum) \<Rightarrow> (string \<Rightarrow> string \<Rightarrow> (product \<Rightarrow> product \<Rightarrow> bool) option)
     \<Rightarrow> product_query \<Rightarrow> product list \<Rightarrow> error + product_listing" where
  "list_products toNumber cmp_of q rows =
     (let page = number_or toNumber 1 (q_page q);
          limit = number_or toNumber 20 (q_limit q);
          skip_n = js_times (js_minus page (Fin 1)) limit;
          w = product_where_of toNumber q;
          matching = filter (matches_where w) rows
      in if \<not> where_ok w then Inl ServerError
         else
           (case cmp_of (or_default ''createdAt'' (q_sortBy q)) (or_default ''desc'' (q_order q)) of
              None \<Rightarrow> Inl ServerError
            | Some le \<Rightarrow>
                (case page_window skip_n limit (order_by le matching) of
                   None \<Rightarrow> Inl ServerError
                 | Some found \<Rightarrow>
                     Inr \<lparr>products = found,
                          pagination =
                            \<lparr>pg_page = page, pg_limit = limit, pg_total = length matching,
                             pg_pages = pages_of (length matching) limit\<rparr>\<rparr>)))"

subsection \<open>Reading one product\<close>

definition count_view :: "product \<Rightarrow> product" where
  "count_view p = p\<lparr>viewCount := viewCount p + 1\<rparr>"

text \<open>
  \<^verbatim>\<open>GET /:id\<close>: the row is read, then its counter is incremented in the store, then the
  row that was read is sent.
\<close>

definition get_product :: "string \<Rightarrow> product list \<Rightarrow> (error + product) \<times> product list" where
  "get_product i rows =
     (case findUnique prod_id i rows of
        None \<Rightarrow> (Inl NotFound, rows)
      | Some p \<Rightarrow>
          (case update_row prod_id i count_view rows of
             None \<Rightarrow> (Inl ServerError, rows)
           | Some (_, rows1) \<Rightarrow> (Inr p, rows1)))"

section \<open>Orders\<close>

text \<open>
  An order row. A point in time is a number of milliseconds; \<open>deliveredAt\<close> is
  \<open>None\<close> until it is stamped.
\<close>

record order =
  order_id :: string
  order_userId :: string
  status :: string
  order_total :: real
  order_createdAt :: int
  deliveredAt :: "int option"

subsection \<open>Updating the status of an order\<close>

text \<open>
  The \<open>data\<close> of \<^verbatim>\<open>PUT /orders/:id/status\<close>: the status of the body (left as it is
  when the body has none), and \<^verbatim>\<open>deliveredAt: new Date()\<close> spread in when the status
  is the string DELIVERED. \<open>now\<close> is the clock at the call.
\<close>

definition status_data :: "int \<Rightarrow> string option \<Rightarrow> order \<Rightarrow> order" where
  "status_data now st r =
     (let r1 = (case st of None \<Rightarrow> r | Some s \<Rightarrow> r\<lparr>status := s\<rparr>)
      in if st = Some ''DELIVERED'' then r1\<lparr>deliveredAt := Some now\<rparr> else r1)"

definition update_order_status ::
  "int \<Rightarrow> string \<Rightarrow> string option \<Rightarrow> order list \<Rightarrow> (error + order) \<times> order list" where
  "update_order_status now i st rows =
     (case update_row order_id i (status_data now st) rows of
        None \<Rightarrow> (Inl ServerError, rows)
      | Some (r, rows1) \<Rightarrow> (Inr r, rows1))"

subsection \<open>Listing orders\<close>

record order_query =
  oq_status :: "string option"
  oq_page :: "string option"
  oq_limit :: "string option"

record order_listing =
  orders :: "order list"
  order_pagination :: pagination

definition status_matches :: "string option \<Rightarrow> order \<Rightarrow> bool" where
  "status_matches st r = (if truthy st then st = Some (status r) else True)"

definition newest_first :: "order \<Rightarrow> order \<Rightarrow> bool" where
  "newest_first a b = (order_createdAt b \<le> order_createdAt a)"

text \<open>\<^verbatim>\<open>GET /orders\<close> of the admin routes, in the order \<^verbatim>\<open>createdAt: 'desc'\<close>.\<close>

definition list_orders ::
  "(string \<Rightarrow> jsnum) \<Rightarrow> order_query \<Rightarrow> order list \<Rightarrow> error + order_listing" where
  "list_orders toNumber q rows =
     (let page = number_or toNumber 1 (oq_page q);
          limit = number_or toNumber 20 (oq_limit q);
          skip_n = js_times (js_minus page (Fin 1)) limit;
          matching = filter (status_matches (oq_status q)) rows
      in case page_window skip_n limit (order_by newest_first matching) of
           None \<Rightarrow> Inl ServerError
         | Some found \<Rightarrow>
             Inr \<lparr>orders = found,
                  order_pagination =
                    \<lparr>pg_page = page, pg_limit = limit, pg_total = length matching,
                     pg_pages = pages_of (length matching) limit\<rparr>\<rparr>)"

subsection \<open>The sales report\<close>

record sales_query =
  sq_startDate :: "string option"
  sq_endDate :: "string option"

record sales_report =
  totalRevenue :: jsnum
  totalOrders :: nat
  averageOrderValue :: jsnum
  report_orders :: "order list"

text \<open>
  The report adds and divides amounts in the double arithmetic of the runtime: the result
  of an operation on two finite numbers is the exact result rounded to a double, or an
  infinity when the exact result is too large for a double. The rounding is a function of
  the runtime; it is the parameter \<open>rnd\<close> (it never yields NaN). The operations on
  infinities and NaN are the ones of the IEEE standard.
\<close>

fun plus_rounded :: "(real \<Rightarrow> jsnum) \<Rightarrow> jsnum \<Rightarrow> jsnum \<Rightarrow> jsnum" where
  "plus_rounded rnd (Fin a) (Fin b) = rnd (a + b)"
| "plus_rounded rnd NaN _ = NaN"
| "plus_rounded rnd _ NaN = NaN"
| "plus_rounded rnd PosInf NegInf = NaN"
| "plus_rounded rnd NegInf PosInf = NaN"
| "plus_rounded rnd PosInf _ = PosInf"
| "plus_rounded rnd NegInf _ = NegInf"
| "plus_rounded rnd (Fin a) PosInf = PosInf"
| "plus_rounded rnd (Fin a) NegInf = NegInf"

fun divide_rounded :: "(real \<Rightarrow> jsnum) \<Rightarrow> jsnum \<Rightarrow> jsnum \<Rightarrow> jsnum" where
  "divide_rounded rnd (Fin a) (Fin b) =
     (if b \<noteq> 0 then rnd (a / b)
      else if a = 0 then NaN else if 0 < a then PosInf else NegInf)"
| "divide_rounded rnd NaN _ = NaN"
| "divide_rounded rnd _ NaN = NaN"
| "divide_rounded rnd PosInf (Fin b) = (if 0 \<le> b then PosInf else NegInf)"
| "divide_rounded rnd NegInf (Fin b) = (if 0 \<le> b then NegInf else PosInf)"
| "divide_rounded rnd (Fin a) _ = Fin 0"
| "divide_rounded rnd _ _ = NaN"

text \<open>
  The range on the creation time is set when both dates are given. \<open>toDate\<close> is
  \<^verbatim>\<open>new Date(string)\<close>, with \<open>None\<close> for an invalid date, which the store rejects.
\<close>

datatype date_range = NoRange | Range int int | BadRange

definition report_range :: "(string \<Rightarrow> int option) \<Rightarrow> sales_query \<Rightarrow> date_range" where
  "report_range toDate q =
     (if truthy (sq_startDate q) \<and> truthy (sq_endDate q)
      then (case (Option.bind (sq_startDate q) toDate, Option.bind (sq_endDate q) toDate) of
              (Some a, Some b) \<Rightarrow> Range a b
            | _ \<Rightarrow> BadRange)
      else NoRange)"

definition in_report :: "date_range \<Rightarrow> order \<Rightarrow> bool" where
  "in_report rg r =
     (status r \<in> set [''DELIVERED'', ''CONFIRMED'']
      \<and> (case rg of Range a b \<Rightarrow> a \<le> order_createdAt r \<and> order_createdAt r \<le> b | _ \<Rightarrow> True))"

text \<open>
  The sum of a list of amounts in this arithmetic, added up from the left, starting
  from zero.
\<close>

definition sum_rounded :: "(real \<Rightarrow> jsnum) \<Rightarrow> real list \<Rightarrow> jsnum" where
  "sum_rounded rnd ts = foldl (\<lambda>acc t. plus_rounded rnd acc (Fin t)) (Fin 0) ts"

text \<open>
  \<^verbatim>\<open>GET /reports/sales\<close>: the matching orders are fetched, then summed up in the
  handler: \<^verbatim>\<open>orders.reduce((sum, order) => sum + order.total, 0)\<close>,
  \<^verbatim>\<open>orders.length\<close> and \<^verbatim>\<open>totalRevenue / totalOrders || 0\<close>. The total of an
  order is a finite number; the length of the list is a whole number, which the
  division takes as it is.
\<close>

definition sales_report_of ::
  "(real \<Rightarrow> jsnum) \<Rightarrow> (string \<Rightarrow> int option) \<Rightarrow> sales_query \<Rightarrow> order list
     \<Rightarrow> error + sales_report" where
  "sales_report_of rnd toDate q rows =
     (if report_range toDate q = BadRange then Inl ServerError
      else
        let fetched = filter (in_report (report_range toDate q)) rows;
            revenue = foldl (\<lambda>sum r. plus_rounded rnd sum (Fin (order_total r))) (Fin 0) fetched;
            n = length fetched
        in Inr \<lparr>totalRevenue = revenue, totalOrders = n,
                averageOrderValue = or_zero (divide_rounded rnd revenue (Fin (real n))),
                report_orders = fetched\<rparr>)"

section \<open>Sample data for the other tables\<close>

definition default_columns :: product where
  "default_columns =
     \<lparr>prod_id = [], prod_name = [], slug = [], description = [], price = 0, stock = 0,
      category = [], brand = [], isActive = True, isFeatured = False, viewCount = 0,
      salesCount = 0, lowStockAlert = 10, prod_createdAt = 0\<rparr>"

definition scarf_body :: product_body where
  "scarf_body =
     \<lparr>pb_id = None, pb_name = Some ''Red Silk Scarf '', pb_description = Some ''Pure silk'',
      pb_price = Some 25, pb_stock = Some 3, pb_category = Some ''Accessories'',
      pb_brand = Some ''Soora'', pb_isActive = None, pb_isFeatured = None,
      pb_viewCount = None, pb_salesCount = None, pb_lowStockAlert = None,
      pb_createdAt = None\<rparr>"

definition sample_product :: "string \<Rightarrow> string \<Rightarrow> string \<Rightarrow> real \<Rightarrow> bool \<Rightarrow> int \<Rightarrow> product" where
  "sample_product i n c pr act v =
     default_columns\<lparr>prod_id := i, prod_name := n, slug := slug_of n, category := c,
       price := pr, isActive := act, viewCount := v\<rparr>"

definition sample_products :: "product list" where
  "sample_products =
     [sample_product ''p1'' ''Scarf'' ''Accessories'' 25 True 7,
      sample_product ''p2'' ''Belt'' ''Accessories'' 60 True 0,
      sample_product ''p3'' ''Hat'' ''Accessories'' 30 False 2,
      sample_product ''p4'' ''Shirt'' ''Clothing'' 40 True 1,
      sample_product ''p5'' ''Socks'' ''Accessories'' 10 True 0,
      sample_product ''p6'' ''Tie'' ''Accessories'' 50 True 4]"

text \<open>A conversion of strings to numbers that knows a few strings, and a store that
  orders products by price upwards and by creation time downwards.\<close>

definition toNumber_sample :: "string \<Rightarrow> jsnum" where
  "toNumber_sample s =
     (if s = ''1'' then Fin 1 else if s = ''2'' then Fin 2 else if s = ''10'' then Fin 10
      else if s = ''50'' then Fin 50 else NaN)"

definition cmp_sample :: "string \<Rightarrow> string \<Rightarrow> (product \<Rightarrow> product \<Rightarrow> bool) option" where
  "cmp_sample col dir =
     (if col = ''price'' \<and> dir = ''asc'' then Some (\<lambda>a b. price a \<le> price b)
      else if col = ''createdAt'' \<and> dir = ''desc''
      then Some (\<lambda>a b. prod_createdAt b \<le> prod_createdAt a)
      else None)"

definition query_all :: product_query where
  "query_all =
     \<lparr>q_category = None, q_brand = None, q_minPrice = None, q_maxPrice = None,
      q_search = None, q_page = None, q_limit = None, q_sortBy = Some ''price'',
      q_order = Some ''asc''\<rparr>"

definition query_accessories :: product_query where
  "query_accessories =
     query_all\<lparr>q_category := Some ''Accessories'', q_minPrice := Some ''10'',
       q_maxPrice := Some ''50''\<rparr>"

definition query_second_page :: product_query where
  "query_second_page = query_all\<lparr>q_page := Some ''2'', q_limit := Some ''2''\<rparr>"

definition sample_order :: "string \<Rightarrow> string \<Rightarrow> string \<Rightarrow> real \<Rightarrow> int \<Rightarrow> int option \<Rightarrow> order" where
  "sample_order i u st amount created delivered =
     \<lparr>order_id = i, order_userId = u, status = st, order_total = amount,
      order_createdAt = created, deliveredAt = delivered\<rparr>"

definition sample_orders :: "order list" where
  "sample_orders =
     [sample_order ''o1'' ''u1'' ''PENDING'' 100 1000 None,
      sample_order ''o2'' ''u1'' ''CONFIRMED'' 50 2000 None,
      sample_order ''o3'' ''u2'' ''DELIVERED'' 30 3000 (Some 3500),
      sample_order ''o4'' ''u2'' ''CANCELLED'' 70 4000 None]"

definition orders_second_page :: order_query where
  "orders_second_page = \<lparr>oq_status = None, oq_page = Some ''2'', oq_limit = Some ''2''\<rparr>"

definition toDate_sample :: "string \<Rightarrow> int option" where
  "toDate_sample s =
     (if s = ''1970-01-01T00:00:01.500Z'' then Some 1500
      else if s = ''1970-01-01T00:00:03.500Z'' then Some 3500 else None)"

definition report_all :: sales_query where
  "report_all = \<lparr>sq_startDate = None, sq_endDate = None\<rparr>"

text \<open>
  Three confirmed orders whose average is not a whole number, and two roundings to try the
  report with: one that rounds to the nearest multiple of an eighth (halves upwards), and
  one that leaves every number as it is.
\<close>

definition sample_thirds :: "order list" where
  "sample_thirds =
     [sample_order ''o5'' ''u1'' ''CONFIRMED'' 50 5000 None,
      sample_order ''o6'' ''u1'' ''CONFIRMED'' 30 6000 None,
      sample_order ''o7'' ''u2'' ''CONFIRMED'' 20 7000 None]"

definition rnd_eighths :: "real \<Rightarrow> jsnum" where
  "rnd_eighths x = Fin (of_int \<lfloor>x * 8 + 1 / 2\<rfloor> / 8)"

definition rnd_exact :: "real \<Rightarrow> jsnum" where
  "rnd_exact x = Fin x"

section \<open>Properties of the address handlers\<close>

subsection \<open>Facts about the store\<close>

lemma findUnique_Some: "findUnique key i rows = Some r \<Longrightarrow> r \<in> set rows \<and> key r = i"
  by (auto simp: findUnique_def find_Some_iff)

lemma findUnique_None: "findUnique key i rows = None \<longleftrightarrow> i \<notin> key ` set rows"
  by (auto simp: findUnique_def find_None_iff)

lemma findUnique_updateMany:
  assumes "\<And>r. key (f r) = key r"
  shows "findUnique key i (updateMany P f rows)
           = map_option (\<lambda>r. if P r then f r else r) (findUnique key i rows)"
  using assms by (induction rows) (auto simp: findUnique_def updateMany_def)

lemma updateMany_id: "(\<And>r. r \<in> set rows \<Longrightarrow> P r \<Longrightarrow> f r = r) \<Longrightarrow> updateMany P f rows = rows"
  by (induction rows) (auto simp: updateMany_def)

lemma primary_key_filter:
  "primary_key key rows \<Longrightarrow> findUnique key i rows = Some r \<Longrightarrow> filter (\<lambda>x. key x = i) rows = [r]"
  unfolding primary_key_def findUnique_def
proof (induction rows)
  case Nil then show ?case by simp
next
  case (Cons x xs)
  show ?case
  proof (cases "key x = i")
    case True
    with Cons.prems have "r = x" by simp
    moreover from Cons.prems have "key x \<notin> key ` set xs" by simp
    with True have "\<forall>y\<in>set xs. key y \<noteq> i" by (metis imageI)
    then have "filter (\<lambda>x. key x = i) xs = []"
      by (simp add: filter_empty_conv)
    ultimately show ?thesis using True by simp
  next
    case False
    with Cons show ?thesis by simp
  qed
qed

lemma primary_key_unique:
  assumes "primary_key key rows" "findUnique key i rows = Some r" "x \<in> set rows" "key x = i"
  shows "x = r"
proof -
  from assms(3,4) have "x \<in> set (filter (\<lambda>x. key x = i) rows)" by simp
  with primary_key_filter [OF assms(1,2)] show ?thesis by simp
qed

lemma primary_key_updateMany:
  "(\<And>r. key (f r) = key r) \<Longrightarrow> primary_key key (updateMany P f rows) = primary_key key rows"
proof -
  assume k: "\<And>r. key (f r) = key r"
  have "map key (updateMany P f rows) = map key rows"
    by (induction rows) (simp_all add: updateMany_def k)
  then show ?thesis by (simp add: primary_key_def)
qed

subsection \<open>Facts about the address rows\<close>

lemma apply_body_twice: "apply_body body (apply_body body a) = apply_body body a"
  by (simp add: apply_body_def set_field_def split: option.splits)

lemma addr_id_apply_body [simp]: "addr_id (apply_body body a) = addr_id a"
  by (simp add: apply_body_def)

lemma userId_apply_body [simp]: "userId (apply_body body a) = userId a"
  by (simp add: apply_body_def)

lemma addr_id_new_address [simp]: "addr_id (new_address uid newId body) = newId"
  by (simp add: new_address_def)

lemma addr_id_unset [simp]: "addr_id (unset_default a) = addr_id a"
  by (simp add: unset_default_def)

lemma userId_unset [simp]: "userId (unset_default a) = userId a"
  by (simp add: unset_default_def)

lemma isDefault_unset [simp]: "\<not> isDefault (unset_default a)"
  by (simp add: unset_default_def)

lemma isDefault_apply_body:
  "wants_default body \<Longrightarrow> isDefault (apply_body body a)"
  by (simp add: apply_body_def wants_default_def)

lemma defaults_of_unset_all:
  "defaults_of uid (updateMany (\<lambda>a. userId a = uid \<and> isDefault a) unset_default rows) = []"
  by (induction rows) (auto simp: defaults_of_def updateMany_def)

lemma create_default:
  assumes "errors = []" "findUnique addr_id newId rows = None" "wants_default body"
  shows "\<exists>rows'. create_address uid errors newId body rows = (Inr (new_address uid newId body), rows')
           \<and> defaults_of uid rows' = [new_address uid newId body]"
proof -
  let ?rows1 = "updateMany (\<lambda>a. userId a = uid \<and> isDefault a) unset_default rows"
  have f: "findUnique addr_id newId ?rows1 = None"
    using assms(2) by (simp add: findUnique_updateMany)
  have d: "defaults_of uid (?rows1 @ [new_address uid newId body]) = [new_address uid newId body]"
    using defaults_of_unset_all [of uid rows] assms(3)
    by (simp add: defaults_of_def new_address_def wants_default_def)
  show ?thesis
    using assms f d by (simp add: create_address_def create_row_def new_address_def)
qed

lemma update_default:
  assumes pk: "primary_key addr_id rows"
    and ex: "findUnique addr_id i rows = Some e" and own: "userId e = uid"
    and wd: "wants_default body"
  shows "\<exists>rows'. update_address uid i body rows = (Inr (apply_body body e), rows')
           \<and> defaults_of uid rows' = [apply_body body e]
           \<and> update_address uid i body rows' = (Inr (apply_body body e), rows')"
proof -
  let ?P = "\<lambda>a. userId a = uid \<and> isDefault a \<and> addr_id a \<noteq> i"
  let ?rows1 = "updateMany ?P unset_default rows"
  let ?rows2 = "updateMany (\<lambda>a. addr_id a = i) (apply_body body) ?rows1"
  let ?g = "\<lambda>r. if addr_id r = i then apply_body body r else if ?P r then unset_default r else r"
  from ex have ei: "addr_id e = i" and es: "e \<in> set rows" by (auto dest: findUnique_Some)
  have f1: "findUnique addr_id i ?rows1 = Some e"
    using ex ei by (simp add: findUnique_updateMany)
  have r2: "?rows2 = map ?g rows"
    by (auto simp: updateMany_def)
  have step: "update_address uid i body rows = (Inr (apply_body body e), ?rows2)"
    using ex own wd f1 by (simp add: update_address_def update_row_def)
  have "filter ((\<lambda>a. userId a = uid \<and> isDefault a) \<circ> ?g) rows = filter (\<lambda>a. addr_id a = i) rows"
  proof (rule filter_cong [OF refl])
    fix x assume x: "x \<in> set rows"
    show "((\<lambda>a. userId a = uid \<and> isDefault a) \<circ> ?g) x = (addr_id x = i)"
    proof (cases "addr_id x = i")
      case True
      with pk ex x have "x = e" by (rule_tac primary_key_unique)
      with True own wd show ?thesis by (simp add: isDefault_apply_body)
    next
      case False
      then show ?thesis by simp
    qed
  qed
  then have d: "defaults_of uid ?rows2 = [apply_body body e]"
    using primary_key_filter [OF pk ex] ei
    by (simp add: defaults_of_def r2 filter_map)
  have "findUnique addr_id i ?rows2
          = map_option (\<lambda>r. if addr_id r = i then apply_body body r else r)
              (findUnique addr_id i ?rows1)"
    by (rule findUnique_updateMany) simp
  with f1 ei have f2: "findUnique addr_id i ?rows2 = Some (apply_body body e)"
    by simp
  have noP: "\<And>r. r \<in> set ?rows2 \<Longrightarrow> \<not> ?P r"
  proof
    fix r assume r: "r \<in> set ?rows2" and p: "?P r"
    then have "r \<in> set (defaults_of uid ?rows2)" by (simp add: defaults_of_def)
    with d have "r = apply_body body e" by simp
    with p ei show False by simp
  qed
  have same1: "updateMany ?P unset_default ?rows2 = ?rows2"
    by (rule updateMany_id) (use noP in blast)
  have same2: "updateMany (\<lambda>a. addr_id a = i) (apply_body body) ?rows2 = ?rows2"
  proof (rule updateMany_id)
    fix r assume r: "r \<in> set ?rows2" and ri: "addr_id r = i"
    from r obtain x where x: "x \<in> set rows" and rx: "r = ?g x" unfolding r2 by auto
    from ri rx have "addr_id x = i" by (simp split: if_splits)
    with rx show "apply_body body r = r" by (simp add: apply_body_twice)
  qed
  have again: "update_address uid i body ?rows2 = (Inr (apply_body body e), ?rows2)"
    using f2 own wd same1 same2
    by (simp add: update_address_def update_row_def apply_body_twice)
  from step d again show ?thesis by simp
qed


subsection \<open>The handlers keep the keys distinct\<close>

lemma primary_key_create_row:
  "primary_key key rows \<Longrightarrow> create_row key r rows = Some rows' \<Longrightarrow> primary_key key rows'"
  by (auto simp: create_row_def primary_key_def findUnique_None split: option.splits)

lemma primary_key_update_row:
  "(\<And>x. key (f x) = key x) \<Longrightarrow> primary_key key rows
     \<Longrightarrow> update_row key i f rows = Some (r, rows') \<Longrightarrow> primary_key key rows'"
  by (auto simp: update_row_def primary_key_updateMany split: option.splits)

lemma primary_key_delete_row:
  "primary_key key rows \<Longrightarrow> delete_row key i rows = Some rows' \<Longrightarrow> primary_key key rows'"
  by (auto simp: delete_row_def primary_key_def distinct_map_filter split: option.splits)

lemma address_handlers_keep_primary_key:
  assumes "primary_key addr_id rows"
  shows "primary_key addr_id (snd (create_address uid errors newId body rows))"
    and "primary_key addr_id (snd (update_address uid i body rows))"
    and "primary_key addr_id (snd (delete_address uid i rows))"
proof -
  have u: "\<And>P. primary_key addr_id (updateMany P unset_default rows)"
    using assms by (simp add: primary_key_updateMany)
  show "primary_key addr_id (snd (create_address uid errors newId body rows))"
    using assms u
    by (auto simp: create_address_def Let_def split: option.splits
          intro: primary_key_create_row)
  show "primary_key addr_id (snd (update_address uid i body rows))"
  proof (cases "findUnique addr_id i rows")
    case None
    with assms show ?thesis by (simp add: update_address_def)
  next
    case (Some e)
    show ?thesis
    proof (cases "userId e = uid")
      case False
      with Some assms show ?thesis by (simp add: update_address_def)
    next
      case True
      define rows1 where "rows1 =
        (if wants_default body
         then updateMany (\<lambda>a. userId a = uid \<and> isDefault a \<and> addr_id a \<noteq> i)
                unset_default rows
         else rows)"
      have p1: "primary_key addr_id rows1" using assms u by (simp add: rows1_def)
      have eq: "update_address uid i body rows
                  = (case update_row addr_id i (apply_body body) rows1 of
                       None \<Rightarrow> (Inl ServerError, rows1)
                     | Some (a, rows2) \<Rightarrow> (Inr a, rows2))"
        using Some True unfolding rows1_def by (simp add: update_address_def Let_def)
      show ?thesis
      proof (cases "update_row addr_id i (apply_body body) rows1")
        case None
        with p1 eq show ?thesis by simp
      next
        case (Some ar)
        obtain a rows2 where ar: "ar = (a, rows2)" by (cases ar)
        from Some ar have "update_row addr_id i (apply_body body) rows1 = Some (a, rows2)"
          by simp
        from primary_key_update_row [OF _ p1 this] have "primary_key addr_id rows2" by simp
        with Some ar eq show ?thesis by simp
      qed
    qed
  qed
  show "primary_key addr_id (snd (delete_address uid i rows))"
    using assms
    by (auto simp: delete_address_def split: option.splits intro: primary_key_delete_row)
qed

subsection \<open>The claims about addresses\<close>

lemmas sample_defs = sample_home_def sample_office_def sample_foreign_def sample_addresses_def
  body_default_def body_plain_def

text \<open>
  Claim C1, as amended. A create whose default flag is true, with no validation error and a
  key the table does not hold yet, succeeds and leaves exactly one address of the caller
  with the default flag: the one created, however many carried the flag before. An update
  of an address of the caller whose default flag is true succeeds and leaves exactly one
  address of the caller with the flag: the one updated (the keys of the table being
  distinct); the same update run again answers the same and leaves the table as it is.
\<close>

theorem default_flag_leaves_one_default:
  "(errors = [] \<and> findUnique addr_id newId rows = None \<and> wants_default body \<longrightarrow>
      (\<exists>rows'. create_address uid errors newId body rows
                  = (Inr (new_address uid newId body), rows')
         \<and> defaults_of uid rows' = [new_address uid newId body]))
   \<and> (primary_key addr_id rows \<and> findUnique addr_id i rows = Some e \<and> userId e = uid
        \<and> wants_default body \<longrightarrow>
      (\<exists>rows'. update_address uid i body rows = (Inr (apply_body body e), rows')
         \<and> defaults_of uid rows' = [apply_body body e]
         \<and> update_address uid i body rows' = (Inr (apply_body body e), rows')))"
  using create_default update_default by blast

theorem default_flag_leaves_one_default_witness:
  "defaults_of ''u1'' sample_addresses = [sample_home, sample_office]
   \<and> defaults_of ''u1'' (snd (create_address ''u1'' [] ''a3'' body_default sample_addresses))
       = [new_address ''u1'' ''a3'' body_default]
   \<and> defaults_of ''u1'' (snd (update_address ''u1'' ''a2'' body_default sample_addresses))
       = [apply_body body_default sample_office]
   \<and> update_address ''u1'' ''a2'' body_default
         (snd (update_address ''u1'' ''a2'' body_default sample_addresses))
       = update_address ''u1'' ''a2'' body_default sample_addresses"
proof -
  have c: "[] = ([]::string list) \<and> findUnique addr_id ''a3'' sample_addresses = None
           \<and> wants_default body_default"
    by (simp add: sample_defs findUnique_def wants_default_def)
  have u: "primary_key addr_id sample_addresses
           \<and> findUnique addr_id ''a2'' sample_addresses = Some sample_office
           \<and> userId sample_office = ''u1'' \<and> wants_default body_default"
    by (simp add: sample_defs findUnique_def wants_default_def primary_key_def)
  have d: "defaults_of ''u1'' sample_addresses = [sample_home, sample_office]"
    by (simp add: sample_defs defaults_of_def)
  from c u d
    default_flag_leaves_one_default [of "[]" "''a3''" sample_addresses body_default "''u1''"
      "''a2''" sample_office]
  show ?thesis by auto
qed

text \<open>
  Claim C1 as stated also says that repeating the operation leaves the state unchanged.
  A create is not idempotent: the second create adds a second row.
\<close>

theorem repeated_create_counterexample:
  "snd (create_address ''u1'' [] ''a4'' body_default
          (snd (create_address ''u1'' [] ''a3'' body_default sample_addresses)))
     \<noteq> snd (create_address ''u1'' [] ''a3'' body_default sample_addresses)"
  by (simp add: sample_defs create_address_def create_row_def findUnique_def updateMany_def
        wants_default_def new_address_def unset_default_def)

text \<open>
  Claim C3. When the addressed row does not exist, or its owner is not the caller, update
  and delete both answer NotFound and leave the table exactly as it was.
\<close>

theorem foreign_address_not_found:
  "findUnique addr_id i rows = None
     \<or> (\<exists>a. findUnique addr_id i rows = Some a \<and> userId a \<noteq> uid)
   \<Longrightarrow> update_address uid i body rows = (Inl NotFound, rows)
       \<and> delete_address uid i rows = (Inl NotFound, rows)"
  by (auto simp: update_address_def delete_address_def)

theorem foreign_address_not_found_witness:
  "update_address ''u1'' ''a9'' body_default sample_addresses = (Inl NotFound, sample_addresses)
   \<and> delete_address ''u1'' ''a9'' sample_addresses = (Inl NotFound, sample_addresses)
   \<and> update_address ''u1'' ''a7'' body_default sample_addresses = (Inl NotFound, sample_addresses)
   \<and> delete_address ''u1'' ''a7'' sample_addresses = (Inl NotFound, sample_addresses)"
proof -
  have foreign: "\<exists>a. findUnique addr_id ''a9'' sample_addresses = Some a \<and> userId a \<noteq> ''u1''"
    by (simp add: sample_defs findUnique_def)
  have missing: "findUnique addr_id ''a7'' sample_addresses = None"
    by (simp add: sample_defs findUnique_def)
  from foreign_address_not_found [of "''a9''" sample_addresses "''u1''" body_default]
    foreign_address_not_found [of "''a7''" sample_addresses "''u1''" body_default]
    foreign missing
  show ?thesis by blast
qed

lemma filter_others_updateMany:
  "filter (\<lambda>a. key a \<noteq> i) (updateMany (\<lambda>a. key a = i) f rows) = filter (\<lambda>a. key a \<noteq> i) rows"
  if "\<And>r. key (f r) = key r"
  using that by (induction rows) (auto simp: updateMany_def)

text \<open>
  Claim C10. When the default flag of the body is false or absent, a create leaves every
  row of the table as it was (it at most appends the new row), and an update leaves every
  row other than the addressed one as it was: no default flag of another address changes.
\<close>

theorem no_default_flag_keeps_others:
  "\<not> wants_default body \<Longrightarrow>
     (snd (create_address uid errors newId body rows) = rows
        \<or> snd (create_address uid errors newId body rows) = rows @ [new_address uid newId body])
     \<and> filter (\<lambda>a. addr_id a \<noteq> i) (snd (update_address uid i body rows))
           = filter (\<lambda>a. addr_id a \<noteq> i) rows"
  by (auto simp: create_address_def create_row_def update_address_def update_row_def
        filter_others_updateMany split: option.splits)

theorem no_default_flag_keeps_others_witness:
  "snd (create_address ''u1'' [] ''a3'' body_plain sample_addresses)
     = sample_addresses @ [new_address ''u1'' ''a3'' body_plain]
   \<and> snd (update_address ''u1'' ''a2'' body_plain sample_addresses)
     = [sample_home, apply_body body_plain sample_office, sample_foreign]
   \<and> filter (\<lambda>a. addr_id a \<noteq> ''a2'') (snd (update_address ''u1'' ''a2'' body_plain sample_addresses))
     = [sample_home, sample_foreign]"
proof -
  have h: "\<not> wants_default body_plain"
    by (simp add: sample_defs wants_default_def)
  have c: "snd (create_address ''u1'' [] ''a3'' body_plain sample_addresses) \<noteq> sample_addresses"
    by (simp add: sample_defs create_address_def create_row_def findUnique_def wants_default_def)
  have u: "snd (update_address ''u1'' ''a2'' body_plain sample_addresses)
     = [sample_home, apply_body body_plain sample_office, sample_foreign]"
    by (simp add: sample_defs update_address_def update_row_def findUnique_def updateMany_def
          wants_default_def)
  have f: "filter (\<lambda>a. addr_id a \<noteq> ''a2'') sample_addresses = [sample_home, sample_foreign]"
    by (simp add: sample_defs)
  from no_default_flag_keeps_others [OF h, of "''u1''" "[]" "''a3''" sample_addresses "''a2''"] c u f
  show ?thesis by simp
qed

section \<open>Properties of the product and order handlers\<close>

subsection \<open>The slug\<close>

lemma replace_spaces_no_space:
  "replace_spaces xs
     = takeWhile (\<lambda>y. \<not> is_space y) xs @ replace_spaces (dropWhile (\<lambda>y. \<not> is_space y) xs)"
  by (induction xs) simp_all

lemma replace_spaces_runs: "replace_spaces s = hyphen_for_runs s"
proof (induction is_space s rule: maximal_runs.induct)
  case 1
  show ?case by (simp add: hyphen_for_runs_def)
next
  case (2 x xs)
  show ?case
  proof (cases "is_space x")
    case True
    then have same: "(\<lambda>y. is_space y = is_space x) = is_space" by auto
    from 2 True show ?thesis by (simp add: hyphen_for_runs_def same)
  next
    case False
    then have same: "(\<lambda>y. is_space y = is_space x) = (\<lambda>y. \<not> is_space y)" by auto
    have "replace_spaces (x # xs) = x # replace_spaces xs" using False by simp
    also have "\<dots> = x # takeWhile (\<lambda>y. \<not> is_space y) xs
                       @ replace_spaces (dropWhile (\<lambda>y. \<not> is_space y) xs)"
      using replace_spaces_no_space [of xs] by simp
    also have "\<dots> = hyphen_for_runs (x # xs)"
      using 2 False by (simp add: hyphen_for_runs_def same)
    finally show ?thesis .
  qed
qed

lemma create_product_ok:
  assumes "errors = []" "pb_name body = Some n"
    "findUnique prod_id (or_default newId (pb_id body)) rows = None"
  shows "\<exists>p. create_product errors newId dflt body rows = (Inr p, rows @ [p])
           \<and> prod_name p = n \<and> slug p = hyphen_for_runs (toLowerCase n)"
  using assms
  by (simp add: create_product_def create_row_def new_product_def slug_of_def replace_spaces_runs)

text \<open>
  Claim C2, as amended. A product create with no validation error, a name and a free key
  succeeds and stores the row it answers with; the slug of that row is the name,
  lowercased, with every maximal run of whitespace replaced by a single hyphen. A run at
  the end of the name is replaced like any other: the name "Red Silk Scarf " with a
  trailing space gets the slug red-silk-scarf- with a trailing hyphen, and the name
  without the trailing space gets the slug red-silk-scarf.
\<close>

theorem product_slug:
  "(errors = [] \<and> pb_name body = Some n
      \<and> findUnique prod_id (or_default newId (pb_id body)) rows = None \<longrightarrow>
      (\<exists>p. create_product errors newId dflt body rows = (Inr p, rows @ [p])
         \<and> prod_name p = n \<and> slug p = hyphen_for_runs (toLowerCase n)))
   \<and> hyphen_for_runs (toLowerCase ''Red Silk Scarf '') = ''red-silk-scarf-''
   \<and> hyphen_for_runs (toLowerCase ''Red Silk Scarf'') = ''red-silk-scarf''"
proof -
  have 1: "hyphen_for_runs (toLowerCase ''Red Silk Scarf '') = ''red-silk-scarf-''"
    by code_simp
  have 2: "hyphen_for_runs (toLowerCase ''Red Silk Scarf'') = ''red-silk-scarf''"
    by code_simp
  have 0: "errors = [] \<and> pb_name body = Some n
      \<and> findUnique prod_id (or_default newId (pb_id body)) rows = None \<longrightarrow>
      (\<exists>p. create_product errors newId dflt body rows = (Inr p, rows @ [p])
         \<and> prod_name p = n \<and> slug p = hyphen_for_runs (toLowerCase n))"
    by (intro impI) (elim conjE, rule create_product_ok)
  from 0 1 2 show ?thesis by (intro conjI)
qed

theorem product_slug_witness:
  "fst (create_product [] ''p9'' default_columns scarf_body sample_products)
     = Inr (new_product ''p9'' default_columns scarf_body ''Red Silk Scarf '')
   \<and> slug (new_product ''p9'' default_columns scarf_body ''Red Silk Scarf '') = ''red-silk-scarf-''"
proof -
  have h: "[] = ([]::string list) \<and> pb_name scarf_body = Some ''Red Silk Scarf ''
      \<and> findUnique prod_id (or_default ''p9'' (pb_id scarf_body)) sample_products = None"
    by code_simp
  have f: "fst (create_product [] ''p9'' default_columns scarf_body sample_products)
     = Inr (new_product ''p9'' default_columns scarf_body ''Red Silk Scarf '')"
    by code_simp
  from product_slug [of "[]" scarf_body "''Red Silk Scarf ''" "''p9''" sample_products
      default_columns] h f
  show ?thesis by auto
qed

text \<open>
  Claim C2 as stated gives red-silk-scarf as the slug of "Red Silk Scarf " (with the
  trailing space). The handler does not trim the name, and the slug it stores ends in a
  hyphen.
\<close>

theorem trailing_space_slug_counterexample:
  "slug (projr (fst (create_product [] ''p9'' default_columns scarf_body sample_products)))
     \<noteq> ''red-silk-scarf''"
  by code_simp

subsection \<open>The status of an order\<close>

lemma update_row_found:
  assumes "findUnique key i rows = Some r" and k: "\<And>x. key (f x) = key x"
  shows "\<exists>rows'. update_row key i f rows = Some (f r, rows')
           \<and> findUnique key i rows' = Some (f r)
           \<and> filter (\<lambda>x. key x \<noteq> i) rows' = filter (\<lambda>x. key x \<noteq> i) rows"
proof -
  from assms(1) have ki: "key r = i" by (auto dest: findUnique_Some)
  have "findUnique key i (updateMany (\<lambda>x. key x = i) f rows)
          = map_option (\<lambda>x. if key x = i then f x else x) (findUnique key i rows)"
    by (rule findUnique_updateMany) (rule k)
  with assms(1) ki have "findUnique key i (updateMany (\<lambda>x. key x = i) f rows) = Some (f r)"
    by simp
  with assms(1) show ?thesis
    by (simp add: update_row_def filter_others_updateMany [of key f, OF k])
qed

lemma order_id_status_data [simp]: "order_id (status_data now st r) = order_id r"
  by (simp add: status_data_def Let_def split: option.splits)

lemma status_data_Some:
  "status_data now (Some s) r
     = (if s = ''DELIVERED'' then r\<lparr>status := s, deliveredAt := Some now\<rparr> else r\<lparr>status := s\<rparr>)"
  by (simp add: status_data_def)

text \<open>
  Claim C4. A status update on an existing order succeeds and writes the row it answers
  with. When the status asked for is DELIVERED, the row is the old one with the new status
  and with deliveredAt set to the time of the call, which is not null; for any other
  status it is the old row with the new status only, so deliveredAt is what it was. No
  other field changes, and every other order stays as it was.
\<close>

theorem order_status_update:
  assumes "findUnique order_id i rows = Some r"
  shows "\<exists>r' rows'. update_order_status now i (Some s) rows = (Inr r', rows')
           \<and> findUnique order_id i rows' = Some r'
           \<and> filter (\<lambda>x. order_id x \<noteq> i) rows' = filter (\<lambda>x. order_id x \<noteq> i) rows
           \<and> r' = (if s = ''DELIVERED'' then r\<lparr>status := s, deliveredAt := Some now\<rparr>
                   else r\<lparr>status := s\<rparr>)
           \<and> deliveredAt r' = (if s = ''DELIVERED'' then Some now else deliveredAt r)"
proof -
  from update_row_found [OF assms, of "status_data now (Some s)"]
  obtain rows' where "update_row order_id i (status_data now (Some s)) rows
                        = Some (status_data now (Some s) r, rows')"
    and "findUnique order_id i rows' = Some (status_data now (Some s) r)"
    and "filter (\<lambda>x. order_id x \<noteq> i) rows' = filter (\<lambda>x. order_id x \<noteq> i) rows"
    by auto
  then show ?thesis
    by (simp add: update_order_status_def status_data_Some)
qed

theorem order_status_update_witness:
  "deliveredAt (projr (fst (update_order_status 9000 ''o2'' (Some ''DELIVERED'') sample_orders)))
     = Some 9000
   \<and> deliveredAt (projr (fst (update_order_status 9000 ''o3'' (Some ''CANCELLED'') sample_orders)))
     = Some 3500
   \<and> deliveredAt (projr (fst (update_order_status 9000 ''o1'' (Some ''CONFIRMED'') sample_orders)))
     = None"
proof -
  have 1: "findUnique order_id ''o2'' sample_orders
             = Some (sample_order ''o2'' ''u1'' ''CONFIRMED'' 50 2000 None)"
    by code_simp
  have 2: "findUnique order_id ''o3'' sample_orders
             = Some (sample_order ''o3'' ''u2'' ''DELIVERED'' 30 3000 (Some 3500))"
    by code_simp
  have 3: "findUnique order_id ''o1'' sample_orders
             = Some (sample_order ''o1'' ''u1'' ''PENDING'' 100 1000 None)"
    by code_simp
  from order_status_update [OF 1, of 9000 "''DELIVERED''"]
    order_status_update [OF 2, of 9000 "''CANCELLED''"]
    order_status_update [OF 3, of 9000 "''CONFIRMED''"]
  show ?thesis by (auto simp: sample_order_def)
qed

subsection \<open>The view counter\<close>

lemma prod_id_count_view [simp]: "prod_id (count_view p) = prod_id p"
  by (simp add: count_view_def)

lemma get_product_found:
  assumes "findUnique prod_id i rows = Some p"
  shows "\<exists>rows'. get_product i rows = (Inr p, rows')
           \<and> findUnique prod_id i rows' = Some (count_view p)
           \<and> filter (\<lambda>x. prod_id x \<noteq> i) rows' = filter (\<lambda>x. prod_id x \<noteq> i) rows"
proof -
  from update_row_found [OF assms, of count_view]
  obtain rows' where "update_row prod_id i count_view rows = Some (count_view p, rows')"
    and "findUnique prod_id i rows' = Some (count_view p)"
    and "filter (\<lambda>x. prod_id x \<noteq> i) rows' = filter (\<lambda>x. prod_id x \<noteq> i) rows"
    by auto
  with assms show ?thesis by (simp add: get_product_def)
qed

text \<open>
  Claim C5. When no product has the given id the handler answers NotFound and leaves the
  table as it was. Otherwise one request leaves the row of that id with its viewCount
  incremented by exactly 1 and every other row as it was, and the next request for the
  same id answers with the incremented counter.
\<close>

theorem view_count_incremented:
  "(findUnique prod_id i rows = None \<longrightarrow> get_product i rows = (Inl NotFound, rows))
   \<and> (\<forall>p. findUnique prod_id i rows = Some p \<longrightarrow>
        (\<exists>rows'. get_product i rows = (Inr p, rows')
           \<and> findUnique prod_id i rows' = Some (p\<lparr>viewCount := viewCount p + 1\<rparr>)
           \<and> filter (\<lambda>x. prod_id x \<noteq> i) rows' = filter (\<lambda>x. prod_id x \<noteq> i) rows
           \<and> fst (get_product i rows') = Inr (p\<lparr>viewCount := viewCount p + 1\<rparr>)))"
proof (intro conjI allI impI)
  assume "findUnique prod_id i rows = None"
  then show "get_product i rows = (Inl NotFound, rows)" by (simp add: get_product_def)
next
  fix p assume p: "findUnique prod_id i rows = Some p"
  from get_product_found [OF p] obtain rows' where
    1: "get_product i rows = (Inr p, rows')"
    and 2: "findUnique prod_id i rows' = Some (count_view p)"
    and 3: "filter (\<lambda>x. prod_id x \<noteq> i) rows' = filter (\<lambda>x. prod_id x \<noteq> i) rows"
    by auto
  from get_product_found [OF 2] have "fst (get_product i rows') = Inr (count_view p)" by auto
  with 1 2 3 show "\<exists>rows'. get_product i rows = (Inr p, rows')
           \<and> findUnique prod_id i rows' = Some (p\<lparr>viewCount := viewCount p + 1\<rparr>)
           \<and> filter (\<lambda>x. prod_id x \<noteq> i) rows' = filter (\<lambda>x. prod_id x \<noteq> i) rows
           \<and> fst (get_product i rows') = Inr (p\<lparr>viewCount := viewCount p + 1\<rparr>)"
    by (simp add: count_view_def)
qed

theorem view_count_incremented_witness:
  "viewCount (projr (fst (get_product ''p1'' sample_products))) = 7
   \<and> viewCount (projr (fst (get_product ''p1'' (snd (get_product ''p1'' sample_products))))) = 8
   \<and> get_product ''p0'' sample_products = (Inl NotFound, sample_products)"
proof -
  have 1: "findUnique prod_id ''p1'' sample_products
             = Some (sample_product ''p1'' ''Scarf'' ''Accessories'' 25 True 7)"
    by code_simp
  have 2: "findUnique prod_id ''p0'' sample_products = None"
    by code_simp
  have v: "viewCount (sample_product ''p1'' ''Scarf'' ''Accessories'' 25 True 7) = 7"
    by (simp add: sample_product_def)
  from view_count_incremented [of "''p1''" sample_products]
    view_count_incremented [of "''p0''" sample_products] 1 2 v
  show ?thesis by auto
qed

text \<open>
  Claim C9. For an existing product the answer is the row as it was read before the
  increment: its viewCount is one less than the viewCount stored when the request is
  done.
\<close>

theorem response_before_increment:
  assumes "findUnique prod_id i rows = Some p"
  shows "\<exists>p'. fst (get_product i rows) = Inr p
           \<and> findUnique prod_id i (snd (get_product i rows)) = Some p'
           \<and> viewCount p = viewCount p' - 1"
  using get_product_found [OF assms] by (auto simp: count_view_def)

theorem response_before_increment_witness:
  "viewCount (projr (fst (get_product ''p6'' sample_products))) = 4
   \<and> map_option viewCount (findUnique prod_id ''p6'' (snd (get_product ''p6'' sample_products)))
       = Some 5"
proof -
  have 1: "findUnique prod_id ''p6'' sample_products
             = Some (sample_product ''p6'' ''Tie'' ''Accessories'' 50 True 4)"
    by code_simp
  have v: "viewCount (sample_product ''p6'' ''Tie'' ''Accessories'' 50 True 4) = 4"
    by (simp add: sample_product_def)
  from response_before_increment [OF 1] v show ?thesis by auto
qed

subsection \<open>The sales report\<close>

lemma plus_rounded_not_NaN:
  "(\<And>x. rnd x \<noteq> NaN) \<Longrightarrow> s \<noteq> NaN \<Longrightarrow> plus_rounded rnd s (Fin t) \<noteq> NaN"
  by (cases s) simp_all

lemma foldl_plus_not_NaN:
  "(\<And>x. rnd x \<noteq> NaN) \<Longrightarrow> s \<noteq> NaN
     \<Longrightarrow> foldl (\<lambda>acc t. plus_rounded rnd acc (Fin t)) s ts \<noteq> NaN"
proof (induction ts arbitrary: s)
  case Nil
  then show ?case by simp
next
  case (Cons t ts)
  from Cons.prems have "plus_rounded rnd s (Fin t) \<noteq> NaN" by (rule plus_rounded_not_NaN)
  with Cons show ?case by simp
qed

lemma sum_rounded_not_NaN: "(\<And>x. rnd x \<noteq> NaN) \<Longrightarrow> sum_rounded rnd ts \<noteq> NaN"
  unfolding sum_rounded_def by (rule foldl_plus_not_NaN) simp_all

lemma divide_rounded_not_NaN:
  "(\<And>x. rnd x \<noteq> NaN) \<Longrightarrow> s \<noteq> NaN \<Longrightarrow> 0 < b \<Longrightarrow> divide_rounded rnd s (Fin b) \<noteq> NaN"
  by (cases s) simp_all

lemma or_zero_id: "x \<noteq> NaN \<Longrightarrow> or_zero x = x"
  by (cases x) (simp_all add: or_zero_def)

lemma foldl_plus_exact:
  "(\<And>k. k \<le> length ts \<Longrightarrow> rnd (s + sum_list (take k ts)) = Fin (s + sum_list (take k ts)))
     \<Longrightarrow> foldl (\<lambda>acc t. plus_rounded rnd acc (Fin t)) (Fin s) ts = Fin (s + sum_list ts)"
proof (induction ts arbitrary: s)
  case Nil
  then show ?case by simp
next
  case (Cons t ts)
  from Cons.prems [of 1] have one: "rnd (s + t) = Fin (s + t)" by simp
  have "foldl (\<lambda>acc t. plus_rounded rnd acc (Fin t)) (Fin (s + t)) ts
          = Fin ((s + t) + sum_list ts)"
  proof (rule Cons.IH)
    fix k assume "k \<le> length ts"
    with Cons.prems [of "Suc k"]
    show "rnd (s + t + sum_list (take k ts)) = Fin (s + t + sum_list (take k ts))"
      by (simp add: add.assoc)
  qed
  with one show ?case by (simp add: add.assoc)
qed

lemma sum_rounded_exact:
  assumes "\<forall>k\<le>length ts. rnd (sum_list (take k ts)) = Fin (sum_list (take k ts))"
  shows "sum_rounded rnd ts = Fin (sum_list ts)"
  using foldl_plus_exact [of ts rnd 0] assms by (simp add: sum_rounded_def)

lemma revenue_sum_rounded:
  "foldl (\<lambda>acc r. plus_rounded rnd acc (Fin (order_total r))) (Fin 0) rs
     = sum_rounded rnd (map order_total rs)"
  by (simp add: sum_rounded_def foldl_map)

text \<open>
  Claim C7. Unless a date of the request is invalid, the sales report is produced; the
  orders it is computed over are the fetched ones, all of status DELIVERED or CONFIRMED.
  totalRevenue is the sum of their totals, added up from the left in the arithmetic of
  the runtime (and it is the exact sum wherever no partial sum is rounded); totalOrders
  is their number; averageOrderValue is the quotient of totalRevenue by totalOrders in
  the arithmetic of the runtime when there is an order, and 0 when there is none. The
  rounding of the runtime is any function that never yields NaN.
\<close>

theorem sales_report_totals:
  assumes "report_range toDate q \<noteq> BadRange" and "\<And>x. rnd x \<noteq> NaN"
  shows "\<exists>r. sales_report_of rnd toDate q rows = Inr r
         \<and> report_orders r = filter (in_report (report_range toDate q)) rows
         \<and> (\<forall>x \<in> set (report_orders r). status x = ''DELIVERED'' \<or> status x = ''CONFIRMED'')
         \<and> totalRevenue r = sum_rounded rnd (map order_total (report_orders r))
         \<and> ((\<forall>k\<le>length (report_orders r).
               rnd (sum_list (take k (map order_total (report_orders r))))
                 = Fin (sum_list (take k (map order_total (report_orders r)))))
             \<longrightarrow> totalRevenue r = Fin (sum_list (map order_total (report_orders r))))
         \<and> totalOrders r = length (report_orders r)
         \<and> averageOrderValue r
             = (if 0 < totalOrders r
                then divide_rounded rnd (totalRevenue r) (Fin (real (totalOrders r)))
                else Fin 0)"
proof -
  let ?f = "filter (in_report (report_range toDate q)) rows"
  let ?ts = "map order_total ?f"
  let ?r = "\<lparr>totalRevenue = sum_rounded rnd ?ts, totalOrders = length ?f,
       averageOrderValue = or_zero (divide_rounded rnd (sum_rounded rnd ?ts) (Fin (real (length ?f)))),
       report_orders = ?f\<rparr>"
  from assms(1) have r: "sales_report_of rnd toDate q rows = Inr ?r"
    by (simp add: sales_report_of_def Let_def revenue_sum_rounded)
  have st: "\<forall>x \<in> set ?f. status x = ''DELIVERED'' \<or> status x = ''CONFIRMED''"
    by (auto simp: in_report_def)
  have ex: "(\<forall>k\<le>length ?f. rnd (sum_list (take k ?ts)) = Fin (sum_list (take k ?ts)))
             \<longrightarrow> sum_rounded rnd ?ts = Fin (sum_list ?ts)"
    using sum_rounded_exact [of ?ts rnd] by simp
  have avg: "or_zero (divide_rounded rnd (sum_rounded rnd ?ts) (Fin (real (length ?f))))
     = (if 0 < length ?f then divide_rounded rnd (sum_rounded rnd ?ts) (Fin (real (length ?f)))
        else Fin 0)"
  proof (cases "?f = []")
    case True
    then show ?thesis by (simp add: sum_rounded_def or_zero_def)
  next
    case False
    then have "0 < real (length ?f)" by simp
    with sum_rounded_not_NaN [of rnd ?ts, OF assms(2)]
    have "divide_rounded rnd (sum_rounded rnd ?ts) (Fin (real (length ?f))) \<noteq> NaN"
      by (intro divide_rounded_not_NaN assms(2))
    with False show ?thesis by (simp add: or_zero_id)
  qed
  from r st ex avg show ?thesis by simp
qed

theorem sales_report_totals_witness:
  "totalRevenue (projr (sales_report_of rnd_eighths toDate_sample report_all sample_thirds)) = Fin 100
   \<and> totalOrders (projr (sales_report_of rnd_eighths toDate_sample report_all sample_thirds)) = 3
   \<and> averageOrderValue (projr (sales_report_of rnd_eighths toDate_sample report_all sample_thirds))
       = Fin (267 / 8)
   \<and> averageOrderValue (projr (sales_report_of rnd_eighths toDate_sample report_all sample_orders))
       = Fin 40
   \<and> averageOrderValue (projr (sales_report_of rnd_eighths toDate_sample report_all [])) = Fin 0"
proof -
  have h: "report_range toDate_sample report_all \<noteq> BadRange"
    by (simp add: report_range_def report_all_def truthy_def)
  have n: "\<And>x. rnd_eighths x \<noteq> NaN"
    by (simp add: rnd_eighths_def)
  have f3: "filter (in_report (report_range toDate_sample report_all)) sample_thirds = sample_thirds"
    by code_simp
  have f2: "filter (in_report (report_range toDate_sample report_all)) sample_orders
             = [sample_order ''o2'' ''u1'' ''CONFIRMED'' 50 2000 None,
                sample_order ''o3'' ''u2'' ''DELIVERED'' 30 3000 (Some 3500)]"
    by code_simp
  have s3: "sum_rounded rnd_eighths (map order_total sample_thirds) = Fin 100"
    by code_simp
  have l3: "length sample_thirds = 3"
    by code_simp
  have d3: "divide_rounded rnd_eighths (Fin 100) (Fin (real (3::nat))) = Fin (267 / 8)"
    by code_simp
  have s2: "sum_rounded rnd_eighths (map order_total
              [sample_order ''o2'' ''u1'' ''CONFIRMED'' 50 2000 None,
               sample_order ''o3'' ''u2'' ''DELIVERED'' 30 3000 (Some 3500)]) = Fin 80"
    by code_simp
  have d2: "divide_rounded rnd_eighths (Fin 80) (Fin (real (2::nat))) = Fin 40"
    by code_simp
  from sales_report_totals [where rnd = rnd_eighths and toDate = toDate_sample and q = report_all
      and rows = sample_thirds, OF h n] f3 s3 l3 d3
  have a: "totalRevenue (projr (sales_report_of rnd_eighths toDate_sample report_all sample_thirds)) = Fin 100
   \<and> totalOrders (projr (sales_report_of rnd_eighths toDate_sample report_all sample_thirds)) = 3
   \<and> averageOrderValue (projr (sales_report_of rnd_eighths toDate_sample report_all sample_thirds))
       = Fin (267 / 8)"
    by auto
  from sales_report_totals [where rnd = rnd_eighths and toDate = toDate_sample and q = report_all
      and rows = sample_orders, OF h n] f2 s2 d2
  have b: "averageOrderValue (projr (sales_report_of rnd_eighths toDate_sample report_all sample_orders))
       = Fin 40"
    by auto
  from sales_report_totals [where rnd = rnd_eighths and toDate = toDate_sample and q = report_all
      and rows = "[]", OF h n]
  have c: "averageOrderValue (projr (sales_report_of rnd_eighths toDate_sample report_all [])) = Fin 0"
    by auto
  from a b c show ?thesis by (intro conjI) simp_all
qed

section \<open>Properties of the listings\<close>

lemma set_insert_by [simp]: "set (insert_by le x xs) = insert x (set xs)"
  by (induction xs) auto

lemma length_insert_by [simp]: "length (insert_by le x xs) = Suc (length xs)"
  by (induction xs) auto

lemma set_order_by [simp]: "set (order_by le xs) = set xs"
  by (induction xs) (simp_all add: order_by_def)

lemma length_order_by [simp]: "length (order_by le xs) = length xs"
  by (induction xs) (simp_all add: order_by_def)

lemma page_window_subset: "page_window s t xs = Some ys \<Longrightarrow> set ys \<subseteq> set xs"
  by (auto simp: page_window_def split: jsnum.splits if_splits
        dest!: in_set_takeD in_set_dropD)

lemma page_window_valid:
  assumes "1 \<le> page" "1 \<le> limit"
  shows "page_window (Fin ((real_of_int page - 1) * real_of_int limit)) (Fin (real_of_int limit)) xs
         = Some (take (nat limit) (drop (nat ((page - 1) * limit)) xs))"
proof -
  have e: "(real_of_int page - 1) * real_of_int limit = real_of_int ((page - 1) * limit)" by simp
  have "0 \<le> (page - 1) * limit" using assms by simp
  then show ?thesis using assms unfolding e
    by (simp add: page_window_def is_integer_def del: of_int_mult of_int_diff)
qed

lemma pages_of_valid:
  assumes "1 \<le> limit"
  shows "pages_of n (Fin (real_of_int limit)) = Fin (of_int \<lceil>real n / real_of_int limit\<rceil>)"
  using assms by (simp add: pages_of_def js_divide_def js_ceil_def)

lemma ceiling_is_least:
  assumes "1 \<le> (limit::int)"
  shows "int n \<le> \<lceil>real n / real_of_int limit\<rceil> * limit
         \<and> (\<lceil>real n / real_of_int limit\<rceil> - 1) * limit < int n"
proof -
  let ?c = "\<lceil>real n / real_of_int limit\<rceil>"
  have l: "0 < real_of_int limit" using assms by simp
  have "real n / real_of_int limit \<le> real_of_int ?c" by (rule le_of_int_ceiling)
  with l have "real n \<le> real_of_int ?c * real_of_int limit"
    by (metis pos_divide_le_eq)
  then have "real_of_int (int n) \<le> real_of_int (?c * limit)" by simp
  then have a: "int n \<le> ?c * limit" by (simp only: of_int_le_iff)
  have "real_of_int ?c - 1 < real n / real_of_int limit" by linarith
  with l have "(real_of_int ?c - 1) * real_of_int limit < real n"
    by (metis pos_less_divide_eq)
  then have "real_of_int ((?c - 1) * limit) < real_of_int (int n)" by simp
  then have b: "(?c - 1) * limit < int n" by (simp only: of_int_less_iff)
  from a b show ?thesis by simp
qed

lemma list_products_valid:
  assumes "1 \<le> page" "1 \<le> limit"
    and "number_or toNumber 1 (q_page q) = Fin (of_int page)"
    and "number_or toNumber 20 (q_limit q) = Fin (of_int limit)"
    and "where_ok (product_where_of toNumber q)"
    and "cmp_of (or_default ''createdAt'' (q_sortBy q)) (or_default ''desc'' (q_order q)) = Some le"
  shows "list_products toNumber cmp_of q rows =
     Inr \<lparr>products = take (nat limit) (drop (nat ((page - 1) * limit))
                         (order_by le (filter (matches_where (product_where_of toNumber q)) rows))),
          pagination = \<lparr>pg_page = Fin (of_int page), pg_limit = Fin (of_int limit),
             pg_total = length (filter (matches_where (product_where_of toNumber q)) rows),
             pg_pages = Fin (of_int \<lceil>real (length (filter (matches_where (product_where_of toNumber q)) rows))
                                     / real_of_int limit\<rceil>)\<rparr>\<rparr>"
  using assms(3-6)
  by (simp add: list_products_def Let_def page_window_valid [OF assms(1,2)]
        pages_of_valid [OF assms(2)])

lemma list_orders_valid:
  assumes "1 \<le> page" "1 \<le> limit"
    and "number_or toNumber 1 (oq_page q) = Fin (of_int page)"
    and "number_or toNumber 20 (oq_limit q) = Fin (of_int limit)"
  shows "list_orders toNumber q rows =
     Inr \<lparr>orders = take (nat limit) (drop (nat ((page - 1) * limit))
                         (order_by newest_first (filter (status_matches (oq_status q)) rows))),
          order_pagination = \<lparr>pg_page = Fin (of_int page), pg_limit = Fin (of_int limit),
             pg_total = length (filter (status_matches (oq_status q)) rows),
             pg_pages = Fin (of_int \<lceil>real (length (filter (status_matches (oq_status q)) rows))
                                     / real_of_int limit\<rceil>)\<rparr>\<rparr>"
  using assms(3-4)
  by (simp add: list_orders_def Let_def page_window_valid [OF assms(1,2)]
        pages_of_valid [OF assms(2)])

lemma list_products_sound:
  assumes "list_products toNumber cmp_of q rows = Inr r" "p \<in> set (products r)"
  shows "p \<in> set rows \<and> matches_where (product_where_of toNumber q) p"
proof -
  from assms(1) obtain le where
    "page_window (js_times (js_minus (number_or toNumber 1 (q_page q)) (Fin 1))
                   (number_or toNumber 20 (q_limit q)))
       (number_or toNumber 20 (q_limit q))
       (order_by le (filter (matches_where (product_where_of toNumber q)) rows))
     = Some (products r)"
    by (auto simp: list_products_def Let_def split: if_splits option.splits)
  from page_window_subset [OF this] assms(2) show ?thesis by auto
qed

lemma where_category_All:
  "product_where_of toNumber (q\<lparr>q_category := Some ''All''\<rparr>)
     = product_where_of toNumber (q\<lparr>q_category := None\<rparr>)"
  by (simp add: product_where_of_def truthy_def)

lemma list_products_All:
  "list_products toNumber cmp_of (q\<lparr>q_category := Some ''All''\<rparr>) rows
     = list_products toNumber cmp_of (q\<lparr>q_category := None\<rparr>) rows"
  by (simp add: list_products_def Let_def where_category_All)

lemma where_None_category: "w_category (product_where_of toNumber (q\<lparr>q_category := None\<rparr>)) = None"
  by (simp add: product_where_of_def truthy_def)

text \<open>
  Claim C8. Every product a listing returns is a row of the table with isActive true.
  When the query names a category other than All, every returned product is of that
  category; when it gives a minimum or a maximum price that converts to a finite number,
  the price of every returned product is at least the minimum and at most the maximum (so
  minPrice=10, maxPrice=50 and category=Accessories return only active Accessories priced
  in the closed interval from 10 to 50). The category All answers exactly what an absent
  category answers, and puts no category into the filter.
\<close>

theorem listing_filters:
  "(list_products toNumber cmp_of q rows = Inr r \<and> p \<in> set (products r) \<longrightarrow>
      p \<in> set rows \<and> isActive p
      \<and> (\<forall>c. q_category q = Some c \<and> c \<noteq> [] \<and> c \<noteq> ''All'' \<longrightarrow> category p = c)
      \<and> (\<forall>a lo. q_minPrice q = Some a \<and> a \<noteq> [] \<and> toNumber a = Fin lo \<longrightarrow> lo \<le> price p)
      \<and> (\<forall>b hi. q_maxPrice q = Some b \<and> b \<noteq> [] \<and> toNumber b = Fin hi \<longrightarrow> price p \<le> hi))
   \<and> list_products toNumber cmp_of (q\<lparr>q_category := Some ''All''\<rparr>) rows
       = list_products toNumber cmp_of (q\<lparr>q_category := None\<rparr>) rows
   \<and> w_category (product_where_of toNumber (q\<lparr>q_category := None\<rparr>)) = None"
proof (intro conjI impI)
  assume a: "list_products toNumber cmp_of q rows = Inr r \<and> p \<in> set (products r)"
  then have m: "p \<in> set rows \<and> matches_where (product_where_of toNumber q) p"
    using list_products_sound by blast
  then show "p \<in> set rows"  by simp
  from m show "isActive p" by (simp add: matches_where_def product_where_of_def)
  from m show "\<forall>c. q_category q = Some c \<and> c \<noteq> [] \<and> c \<noteq> ''All'' \<longrightarrow> category p = c"
    by (auto simp: matches_where_def product_where_of_def truthy_def)
  from m show "\<forall>a lo. q_minPrice q = Some a \<and> a \<noteq> [] \<and> toNumber a = Fin lo \<longrightarrow> lo \<le> price p"
    by (auto simp: matches_where_def product_where_of_def truthy_def)
  from m show "\<forall>b hi. q_maxPrice q = Some b \<and> b \<noteq> [] \<and> toNumber b = Fin hi \<longrightarrow> price p \<le> hi"
    by (auto simp: matches_where_def product_where_of_def truthy_def)
qed (rule list_products_All, rule where_None_category)

theorem listing_filters_witness:
  "map prod_name
     (products (projr (list_products toNumber_sample cmp_sample query_accessories sample_products)))
     = [''Socks'', ''Scarf'', ''Tie'']
   \<and> isActive (sample_product ''p6'' ''Tie'' ''Accessories'' 50 True 4)
   \<and> category (sample_product ''p6'' ''Tie'' ''Accessories'' 50 True 4) = ''Accessories''
   \<and> 10 \<le> price (sample_product ''p6'' ''Tie'' ''Accessories'' 50 True 4)
   \<and> price (sample_product ''p6'' ''Tie'' ''Accessories'' 50 True 4) \<le> 50
   \<and> list_products toNumber_sample cmp_sample (query_all\<lparr>q_category := Some ''All''\<rparr>) sample_products
     = list_products toNumber_sample cmp_sample (query_all\<lparr>q_category := None\<rparr>) sample_products"
proof -
  let ?r = "projr (list_products toNumber_sample cmp_sample query_accessories sample_products)"
  let ?tie = "sample_product ''p6'' ''Tie'' ''Accessories'' 50 True 4"
  have 1: "list_products toNumber_sample cmp_sample query_accessories sample_products = Inr ?r"
    by code_simp
  have 2: "?tie \<in> set (products ?r)"
    by code_simp
  have 3: "map prod_name (products ?r) = [''Socks'', ''Scarf'', ''Tie'']"
    by code_simp
  have c: "q_category query_accessories = Some ''Accessories'' \<and> ''Accessories'' \<noteq> []
           \<and> ''Accessories'' \<noteq> ''All''"
    by (simp add: query_accessories_def)
  have lo: "q_minPrice query_accessories = Some ''10'' \<and> ''10'' \<noteq> []
           \<and> toNumber_sample ''10'' = Fin 10"
    by (simp add: query_accessories_def toNumber_sample_def)
  have hi: "q_maxPrice query_accessories = Some ''50'' \<and> ''50'' \<noteq> []
           \<and> toNumber_sample ''50'' = Fin 50"
    by (simp add: query_accessories_def toNumber_sample_def)
  from listing_filters [of toNumber_sample cmp_sample query_accessories sample_products ?r ?tie]
    1 2
  have a: "isActive ?tie"
    and b: "\<forall>c. q_category query_accessories = Some c \<and> c \<noteq> [] \<and> c \<noteq> ''All'' \<longrightarrow> category ?tie = c"
    and d: "\<forall>a lo. q_minPrice query_accessories = Some a \<and> a \<noteq> [] \<and> toNumber_sample a = Fin lo
              \<longrightarrow> lo \<le> price ?tie"
    and e: "\<forall>b hi. q_maxPrice query_accessories = Some b \<and> b \<noteq> [] \<and> toNumber_sample b = Fin hi
              \<longrightarrow> price ?tie \<le> hi"
    by blast+
  from b c have b': "category ?tie = ''Accessories''" by blast
  from d lo have d': "10 \<le> price ?tie" by blast
  from e hi have e': "price ?tie \<le> 50" by blast
  from listing_filters [of toNumber_sample cmp_sample query_all sample_products]
  have f: "list_products toNumber_sample cmp_sample (query_all\<lparr>q_category := Some ''All''\<rparr>) sample_products
     = list_products toNumber_sample cmp_sample (query_all\<lparr>q_category := None\<rparr>) sample_products"
    by blast
  from 3 a b' d' e' f show ?thesis by (intro conjI)
qed

text \<open>
  Claim C6. For integers page and limit that are at least 1, given by the query or by
  the defaults 1 and 20 of an absent parameter, the product listing and the order listing
  both succeed (the product listing when the store accepts the filter and the sort
  column); the rows returned are the matching rows in order without the first
  (page - 1) * limit, cut after limit rows, so they are at most limit; total is the
  number of matching rows and pages is the ceiling of total / limit.
\<close>

theorem listing_pages:
  "1 \<le> page \<and> 1 \<le> limit \<longrightarrow>
     (number_or toNumber 1 (q_page q) = Fin (of_int page)
        \<and> number_or toNumber 20 (q_limit q) = Fin (of_int limit)
        \<and> where_ok (product_where_of toNumber q)
        \<and> cmp_of (or_default ''createdAt'' (q_sortBy q)) (or_default ''desc'' (q_order q)) = Some le
      \<longrightarrow>
        (\<exists>r. list_products toNumber cmp_of q rows = Inr r
           \<and> products r
               = take (nat limit) (drop (nat ((page - 1) * limit))
                   (order_by le (filter (matches_where (product_where_of toNumber q)) rows)))
           \<and> length (products r) \<le> nat limit
           \<and> pg_total (pagination r)
               = length (filter (matches_where (product_where_of toNumber q)) rows)
           \<and> pg_pages (pagination r)
               = Fin (of_int \<lceil>real (pg_total (pagination r)) / real_of_int limit\<rceil>)))
     \<and> (number_or toNumber 1 (oq_page oq) = Fin (of_int page)
        \<and> number_or toNumber 20 (oq_limit oq) = Fin (of_int limit)
      \<longrightarrow>
        (\<exists>r. list_orders toNumber oq orows = Inr r
           \<and> orders r
               = take (nat limit) (drop (nat ((page - 1) * limit))
                   (order_by newest_first (filter (status_matches (oq_status oq)) orows)))
           \<and> length (orders r) \<le> nat limit
           \<and> pg_total (order_pagination r) = length (filter (status_matches (oq_status oq)) orows)
           \<and> pg_pages (order_pagination r)
               = Fin (of_int \<lceil>real (pg_total (order_pagination r)) / real_of_int limit\<rceil>)))
     \<and> number_or toNumber 1 None = Fin 1 \<and> number_or toNumber 20 None = Fin 20"
proof (intro impI conjI; (elim conjE)?)
  assume v: "1 \<le> page" "1 \<le> limit"
    and "number_or toNumber 1 (q_page q) = Fin (of_int page)"
    "number_or toNumber 20 (q_limit q) = Fin (of_int limit)"
    "where_ok (product_where_of toNumber q)"
    "cmp_of (or_default ''createdAt'' (q_sortBy q)) (or_default ''desc'' (q_order q)) = Some le"
  from list_products_valid [where cmp_of = cmp_of and rows = rows, OF this]
  show "\<exists>r. list_products toNumber cmp_of q rows = Inr r
           \<and> products r
               = take (nat limit) (drop (nat ((page - 1) * limit))
                   (order_by le (filter (matches_where (product_where_of toNumber q)) rows)))
           \<and> length (products r) \<le> nat limit
           \<and> pg_total (pagination r)
               = length (filter (matches_where (product_where_of toNumber q)) rows)
           \<and> pg_pages (pagination r)
               = Fin (of_int \<lceil>real (pg_total (pagination r)) / real_of_int limit\<rceil>)"
    by simp
next
  assume v: "1 \<le> page" "1 \<le> limit"
    and "number_or toNumber 1 (oq_page oq) = Fin (of_int page)"
    "number_or toNumber 20 (oq_limit oq) = Fin (of_int limit)"
  from list_orders_valid [where rows = orows, OF this]
  show "\<exists>r. list_orders toNumber oq orows = Inr r
           \<and> orders r
               = take (nat limit) (drop (nat ((page - 1) * limit))
                   (order_by newest_first (filter (status_matches (oq_status oq)) orows)))
           \<and> length (orders r) \<le> nat limit
           \<and> pg_total (order_pagination r) = length (filter (status_matches (oq_status oq)) orows)
           \<and> pg_pages (order_pagination r)
               = Fin (of_int \<lceil>real (pg_total (order_pagination r)) / real_of_int limit\<rceil>)"
    by simp
qed (simp_all add: number_or_def)

theorem listing_pages_witness:
  "map prod_name
     (products (projr (list_products toNumber_sample cmp_sample query_second_page sample_products)))
     = [''Shirt'', ''Tie'']
   \<and> pg_pages (pagination
        (projr (list_products toNumber_sample cmp_sample query_second_page sample_products)))
     = Fin 3
   \<and> map order_id (orders (projr (list_orders toNumber_sample orders_second_page sample_orders)))
     = [''o2'', ''o1'']
   \<and> pg_pages (order_pagination
        (projr (list_orders toNumber_sample orders_second_page sample_orders)))
     = Fin 2"
proof -
  let ?w = "product_where_of toNumber_sample query_second_page"
  have v: "(1::int) \<le> 2 \<and> (1::int) \<le> 2" by simp
  have p: "number_or toNumber_sample 1 (q_page query_second_page) = Fin (of_int 2)
        \<and> number_or toNumber_sample 20 (q_limit query_second_page) = Fin (of_int 2)
        \<and> where_ok ?w
        \<and> cmp_sample (or_default ''createdAt'' (q_sortBy query_second_page))
             (or_default ''desc'' (q_order query_second_page)) = Some (\<lambda>a b. price a \<le> price b)"
    by (simp add: query_second_page_def query_all_def number_or_def toNumber_sample_def
          where_ok_def bound_ok_def product_where_of_def truthy_def cmp_sample_def or_default_def)
  have o: "number_or toNumber_sample 1 (oq_page orders_second_page) = Fin (of_int 2)
        \<and> number_or toNumber_sample 20 (oq_limit orders_second_page) = Fin (of_int 2)"
    by (simp add: orders_second_page_def number_or_def toNumber_sample_def)
  have e1: "map prod_name (take (nat 2) (drop (nat ((2 - 1) * 2))
              (order_by (\<lambda>a b. price a \<le> price b) (filter (matches_where ?w) sample_products))))
            = [''Shirt'', ''Tie'']"
    by code_simp
  have e2: "length (filter (matches_where ?w) sample_products) = 5"
    by code_simp
  have e3: "map order_id (take (nat 2) (drop (nat ((2 - 1) * 2))
              (order_by newest_first
                 (filter (status_matches (oq_status orders_second_page)) sample_orders))))
            = [''o2'', ''o1'']"
    by code_simp
  have e4: "length (filter (status_matches (oq_status orders_second_page)) sample_orders) = 4"
    by code_simp
  have c1: "\<lceil>(5::real) / 2\<rceil> = 3" by simp
  have c2: "\<lceil>(4::real) / 2\<rceil> = 2" by simp
  from listing_pages [of 2 2 toNumber_sample query_second_page cmp_sample
      "\<lambda>a b. price a \<le> price b" sample_products orders_second_page sample_orders]
    v p o
  obtain r ro where
    "list_products toNumber_sample cmp_sample query_second_page sample_products = Inr r"
    "products r = take (nat 2) (drop (nat ((2 - 1) * 2))
              (order_by (\<lambda>a b. price a \<le> price b) (filter (matches_where ?w) sample_products)))"
    "pg_total (pagination r) = length (filter (matches_where ?w) sample_products)"
    "pg_pages (pagination r) = Fin (of_int \<lceil>real (pg_total (pagination r)) / real_of_int 2\<rceil>)"
    "list_orders toNumber_sample orders_second_page sample_orders = Inr ro"
    "orders ro = take (nat 2) (drop (nat ((2 - 1) * 2))
              (order_by newest_first
                 (filter (status_matches (oq_status orders_second_page)) sample_orders)))"
    "pg_total (order_pagination ro)
       = length (filter (status_matches (oq_status orders_second_page)) sample_orders)"
    "pg_pages (order_pagination ro)
       = Fin (of_int \<lceil>real (pg_total (order_pagination ro)) / real_of_int 2\<rceil>)"
    by auto
  with e1 e2 e3 e4 c1 c2 show ?thesis by simp
qed

end
